theory Spec2Isabelle
  imports Main "HOL-Library.Sublist" "HOL-Library.AList" "HOL-Library.List_Lexorder"
    "HOL-Library.Char_ord"
begin

section \<open>The tfsdklog package of terraform-plugin-log\<close>

text \<open>
  The theory embeds \<^verbatim>\<open>src/tfsdklog/sdk.go\<close>: the two root-logger constructors,
  \<^verbatim>\<open>SetField\<close>, the five emit operations with their helper \<^verbatim>\<open>omitOrMask\<close>, and the
  six policy-extension operations. The packages \<^verbatim>\<open>internal/logging\<close> and
  \<^verbatim>\<open>internal/hclogutils\<close> belong to the repository but their files are not part of the
  examined source; what sdk.go calls from them is modelled from the specification and
  marked as such. \<^verbatim>\<open>hclog\<close>, \<^verbatim>\<open>regexp\<close>, \<^verbatim>\<open>strings\<close> and \<^verbatim>\<open>unicode/utf8\<close> are external
  libraries and are modelled at their boundary.
\<close>

subsection \<open>Values of the external libraries\<close>

text \<open>\<^verbatim>\<open>hclog.Level\<close>: \<^verbatim>\<open>NoLevel\<close> is the zero value ("unset"), then the levels in
  increasing severity.\<close>

datatype hclog_Level = NoLevel | LvTrace | LvDebug | LvInfo | LvWarn | LvError | LvOff

text \<open>A field value (\<^verbatim>\<open>interface{}\<close>).\<close>

datatype val = VNil | VString string | VInt int | VBool bool

text \<open>A Go string is a sequence of bytes: a \<^typ>\<open>string\<close>, whose characters are the bytes.
  A field map \<^verbatim>\<open>map[string]interface{}\<close> is an association list (the order stands for
  the iteration order). An argument slice \<^verbatim>\<open>[]interface{}\<close> of alternating keys and values,
  as \<^verbatim>\<open>MapsToArgs\<close> and \<^verbatim>\<open>ImpliedArgs\<close> produce it with string keys, is the list of its
  key/value pairs.\<close>

type_synonym fields = "(string \<times> val) list"
type_synonym args = "(string \<times> val) list"

text \<open>An \<^verbatim>\<open>io.Writer\<close> is an opaque handle; \<^verbatim>\<open>None\<close> is the nil interface.\<close>

type_synonym writer = nat

text \<open>Pointers are addresses: the option structs and the policy stores live in heaps,
  addressed by index.\<close>

type_synonym addr = nat

record hclog_LoggerOptions =
  Name :: string
  Level :: hclog_Level
  Output :: "writer option"
  JSONFormat :: bool
  IncludeLocation :: bool
  AdditionalLocationOffset :: int
  TimeFormat :: string
  DisableTime :: bool
  IndependentLevels :: bool

text \<open>The zero value of the struct: every field a struct literal does not mention.\<close>

definition zero_LoggerOptions :: hclog_LoggerOptions where
  "zero_LoggerOptions =
     \<lparr>Name = [], Level = NoLevel, Output = None, JSONFormat = False,
      IncludeLocation = False, AdditionalLocationOffset = 0, TimeFormat = [],
      DisableTime = False, IndependentLevels = False\<rparr>"

text \<open>An \<^verbatim>\<open>hclog.Logger\<close>: its name, the minimum level set on it and the fields bound to
  it for good (\<^verbatim>\<open>ImpliedArgs\<close>). The level is the one given to this logger. That a sink
  made without independent levels keeps one level cell for itself and the loggers derived
  from it is inside hclog and not part of the model: the statements below are about the
  slots of the context, the option structs, the policy stores and the calls the sink
  receives, and none of them is about the level at which a logger lets a call pass.\<close>

record hclog_Logger =
  lname :: string
  llevel :: hclog_Level
  implied :: args

text \<open>One call of a level method of a logger, as the sink receives it.\<close>

record emission =
  e_level :: hclog_Level
  e_logger :: hclog_Logger
  e_msg :: string
  e_args :: args

text \<open>\<^verbatim>\<open>hclog.New(opts)\<close>: a logger with the name and level of the options and no bound
  fields.\<close>

definition hclog_New :: "hclog_LoggerOptions \<Rightarrow> hclog_Logger" where
  "hclog_New opts = \<lparr>lname = Name opts, llevel = Level opts, implied = []\<rparr>"

text \<open>\<^verbatim>\<open>l.Named(name)\<close>: a child whose name extends the parent's.\<close>

definition Named :: "hclog_Logger \<Rightarrow> string \<Rightarrow> hclog_Logger" where
  "Named l name = l\<lparr>lname := (if lname l = [] then name else lname l @ ''.'' @ name)\<rparr>"

text \<open>\<^verbatim>\<open>l.SetLevel(level)\<close>: the level of the logger it is called on.\<close>

definition SetLevel :: "hclog_Logger \<Rightarrow> hclog_Level \<Rightarrow> hclog_Logger" where
  "SetLevel l lvl = l\<lparr>llevel := lvl\<rparr>"

text \<open>\<^verbatim>\<open>l.With(key, value)\<close>: a logger with one more bound field; a key bound before
  takes the new value, and the bound fields are kept sorted by key.\<close>

definition With :: "hclog_Logger \<Rightarrow> string \<Rightarrow> val \<Rightarrow> hclog_Logger" where
  "With l key v = l\<lparr>implied := sort_key fst (AList.update key v (implied l))\<rparr>"

definition ImpliedArgs :: "hclog_Logger \<Rightarrow> args" where
  "ImpliedArgs l = implied l"

subsection \<open>Strings\<close>

text \<open>\<^verbatim>\<open>utf8.DecodeRuneInString(s)\<close>, its second result: the number of bytes of the first
  character of \<open>s\<close>. It is 0 for the empty string and 1 for a byte that does not start a
  well-formed UTF-8 sequence.\<close>

definition byte_in :: "char \<Rightarrow> nat \<Rightarrow> nat \<Rightarrow> bool" where
  "byte_in b lo hi = (lo \<le> of_char b \<and> (of_char b :: nat) \<le> hi)"

fun rune_width :: "string \<Rightarrow> nat" where
  "rune_width [] = 0"
| "rune_width (s0 # rest) =
     (let x = (of_char s0 :: nat) in
      if x < 0x80 \<or> x < 0xC2 \<or> 0xF4 < x then 1
      else
        (let sz = (if x < 0xE0 then 2 else if x < 0xF0 then 3 else (4::nat));
             lo = (if x = 0xE0 then 0xA0 else if x = 0xF0 then 0x90 else 0x80);
             hi = (if x = 0xED then 0x9F else if x = 0xF4 then 0x8F else 0xBF)
         in case rest of
              [] \<Rightarrow> 1
            | s1 # rest1 \<Rightarrow>
                if Suc (length rest) < sz then 1
                else if \<not> byte_in s1 lo hi then 1
                else if sz \<le> 2 then 2
                else (case rest1 of
                        [] \<Rightarrow> 1
                      | s2 # rest2 \<Rightarrow>
                          if \<not> byte_in s2 0x80 0xBF then 1
                          else if sz \<le> 3 then 3
                          else (case rest2 of
                                  [] \<Rightarrow> 1
                                | s3 # rest3 \<Rightarrow>
                                    if \<not> byte_in s3 0x80 0xBF then 1 else 4))))"

text \<open>The characters of a string, each as its bytes.\<close>

function runes :: "string \<Rightarrow> string list" where
  "runes s = (if s = [] then [] else take (rune_width s) s # runes (drop (rune_width s) s))"
  by pat_completeness auto
termination
proof (relation "measure length")
  show "wf (measure length)" by simp
next
  fix s :: string
  assume "s \<noteq> []"
  then obtain s0 rest where s: "s = s0 # rest" by (cases s) auto
  have "0 < rune_width (s0 # rest)"
    by (simp add: Let_def split: list.splits)
  with s show "(drop (rune_width s) s, s) \<in> measure length" by simp
qed

text \<open>\<^verbatim>\<open>strings.Contains(s, substr)\<close>.\<close>

definition Contains :: "string \<Rightarrow> string \<Rightarrow> bool" where
  "Contains s substr = sublist substr s"

text \<open>\<^verbatim>\<open>strings.ReplaceAll(s, old, new)\<close>: the occurrences of \<^verbatim>\<open>old\<close> are found from the
  left and do not overlap; an empty \<^verbatim>\<open>old\<close> matches before every character and at the
  end.\<close>

function replace_from :: "string \<Rightarrow> string \<Rightarrow> string \<Rightarrow> string" where
  "replace_from [] old new = []"
| "replace_from (c # cs) old new =
     (if old \<noteq> [] \<and> prefix old (c # cs)
      then new @ replace_from (drop (length old) (c # cs)) old new
      else c # replace_from cs old new)"
  by pat_completeness auto
termination
  by (relation "measure (\<lambda>(s, old, new). length s)") (auto simp: neq_Nil_conv)

definition ReplaceAll :: "string \<Rightarrow> string \<Rightarrow> string \<Rightarrow> string" where
  "ReplaceAll s old new =
     (if old = [] then new @ concat (map (\<lambda>r. r @ new) (runes s))
      else replace_from s old new)"

subsection \<open>Regular expressions\<close>

text \<open>A compiled \<^verbatim>\<open>*regexp.Regexp\<close> is taken by its matcher: \<open>execute src pos\<close> is the
  leftmost match of the pattern in \<open>src\<close> that begins at or after \<open>pos\<close>, as the start and
  the end of the match, or \<open>None\<close> when there is none. \<^verbatim>\<open>MatchString\<close> and
  \<^verbatim>\<open>ReplaceAllString\<close> are the library's loops over this matcher.\<close>

record regexp =
  execute :: "string \<Rightarrow> nat \<Rightarrow> (nat \<times> nat) option"

text \<open>The matcher of a compiled pattern answers inside the text it searched; another
  answer is read as no match.\<close>

definition find_match :: "regexp \<Rightarrow> string \<Rightarrow> nat \<Rightarrow> (nat \<times> nat) option" where
  "find_match re src pos =
     (case execute re src pos of
        None \<Rightarrow> None
      | Some (a0, a1) \<Rightarrow>
          if pos \<le> a0 \<and> a0 \<le> a1 \<and> a1 \<le> length src then Some (a0, a1) else None)"

text \<open>\<^verbatim>\<open>re.MatchString(s)\<close>: there is a match somewhere in \<open>s\<close>.\<close>

definition MatchString :: "regexp \<Rightarrow> string \<Rightarrow> bool" where
  "MatchString re s = (find_match re s 0 \<noteq> None)"

text \<open>The loop of \<^verbatim>\<open>re.ReplaceAllString(src, repl)\<close>, from the state
  (\<^verbatim>\<open>lastMatchEnd\<close>, \<^verbatim>\<open>searchPos\<close>) on: the text between the last match and this one is
  copied; the replacement is inserted, except for an empty match right after another
  match; the search goes on after the match, and at least one character further. The
  replacement is inserted as it is: the mask token holds no \<^verbatim>\<open>$\<close>, which the library
  would expand.\<close>

function replace_matches :: "regexp \<Rightarrow> string \<Rightarrow> string \<Rightarrow> nat \<Rightarrow> nat \<Rightarrow> string" where
  "replace_matches re src repl lastMatchEnd searchPos =
     (if searchPos \<le> length src
      then (case find_match re src searchPos of
              None \<Rightarrow> drop lastMatchEnd src
            | Some (a0, a1) \<Rightarrow>
                take (a0 - lastMatchEnd) (drop lastMatchEnd src)
                @ (if a1 > lastMatchEnd \<or> a0 = 0 then repl else [])
                @ replace_matches re src repl a1
                    (if searchPos + rune_width (drop searchPos src) > a1
                     then searchPos + rune_width (drop searchPos src)
                     else if searchPos + 1 > a1 then searchPos + 1
                     else a1))
      else drop lastMatchEnd src)"
  by pat_completeness auto
termination
proof (relation "measure (\<lambda>(re, src, repl, lastMatchEnd, searchPos). Suc (length src) - searchPos)")
  show "wf (measure (\<lambda>(re, src, repl, lastMatchEnd, searchPos). Suc (length src) - searchPos))"
    by simp
next
  fix re :: regexp and src repl :: string and lastMatchEnd searchPos :: nat and x2 a0 a1
  assume le: "searchPos \<le> length src"
    and m: "find_match re src searchPos = Some x2" and x: "(a0, a1) = x2"
  from m x have "searchPos \<le> a1"
    by (auto simp: find_match_def split: option.splits if_splits)
  with le show "((re, src, repl, a1,
            if a1 < searchPos + rune_width (drop searchPos src)
            then searchPos + rune_width (drop searchPos src)
            else if a1 < searchPos + 1 then searchPos + 1 else a1),
           re, src, repl, lastMatchEnd, searchPos)
          \<in> measure (\<lambda>(re, src, repl, lastMatchEnd, searchPos). Suc (length src) - searchPos)"
    by auto
qed

definition ReplaceAllString :: "regexp \<Rightarrow> string \<Rightarrow> string \<Rightarrow> string" where
  "ReplaceAllString re src repl = replace_matches re src repl 0 0"

subsection \<open>The logging package: options, policy store and context slots\<close>

text \<open>\<^verbatim>\<open>logging.LoggerOpts\<close> as \<^verbatim>\<open>logging.ApplyLoggerOpts(options...)\<close> returns it, with
  the fields that the constructors in sdk.go read from it. How the options are resolved is
  not part of the examined source: the constructors of this theory take the resolved struct
  as their argument.\<close>

record LoggerOpts =
  opt_Name :: string
  opt_Level :: hclog_Level
  opt_IncludeLocation :: bool
  opt_IncludeTime :: bool
  opt_Output :: "writer option"
  opt_AdditionalLocationOffset :: int

text \<open>Modelled from the spec: the policy store that \<^verbatim>\<open>GetSDKRootTFLoggerOpts\<close> returns
  (the struct is declared in \<^verbatim>\<open>internal/logging\<close>). Its rule sets are ordered and
  append-only.\<close>

record TFLoggerOpts =
  omitByFieldKeys :: "string list"
  omitByMessageMatches :: "regexp list"
  omitByMessageStrings :: "string list"
  maskFieldValueByFieldKeys :: "string list"
  maskMessageByMatches :: "regexp list"
  maskMessageByStrings :: "string list"

definition empty_TFLoggerOpts :: TFLoggerOpts where
  "empty_TFLoggerOpts =
     \<lparr>omitByFieldKeys = [], omitByMessageMatches = [], omitByMessageStrings = [],
      maskFieldValueByFieldKeys = [], maskMessageByMatches = [], maskMessageByStrings = []\<rparr>"

text \<open>The state outside the context: the heap of option structs, the heap of policy
  stores, and the calls the sink has received, oldest first.\<close>

record world =
  opts_heap :: "hclog_LoggerOptions list"
  store_heap :: "TFLoggerOpts list"
  sink_calls :: "emission list"

definition opts_at :: "world \<Rightarrow> addr \<Rightarrow> hclog_LoggerOptions option" where
  "opts_at w a = (if a < length (opts_heap w) then Some (opts_heap w ! a) else None)"

text \<open>\<^verbatim>\<open>&hclog.LoggerOptions{...}\<close>: a new struct at a fresh address.\<close>

definition new_opts :: "world \<Rightarrow> hclog_LoggerOptions \<Rightarrow> addr \<times> world" where
  "new_opts w opts = (length (opts_heap w), w\<lparr>opts_heap := opts_heap w @ [opts]\<rparr>)"

text \<open>An assignment to a field through the pointer.\<close>

definition update_opts ::
  "addr \<Rightarrow> (hclog_LoggerOptions \<Rightarrow> hclog_LoggerOptions) \<Rightarrow> world \<Rightarrow> world" where
  "update_opts a f w =
     (if a < length (opts_heap w) then w\<lparr>opts_heap := (opts_heap w)[a := f (opts_heap w ! a)]\<rparr>
      else w)"

text \<open>The policy store at an address, and a store put at a fresh address.\<close>

definition store_at :: "world \<Rightarrow> addr \<Rightarrow> TFLoggerOpts option" where
  "store_at w a = (if a < length (store_heap w) then Some (store_heap w ! a) else None)"

definition new_store :: "world \<Rightarrow> TFLoggerOpts \<Rightarrow> addr \<times> world" where
  "new_store w lOpts = (length (store_heap w), w\<lparr>store_heap := store_heap w @ [lOpts]\<rparr>)"

text \<open>\<^verbatim>\<open>l.Trace(msg, args...)\<close> and its siblings: the sink receives the call.\<close>

definition logger_call ::
  "hclog_Level \<Rightarrow> hclog_Logger \<Rightarrow> string \<Rightarrow> args \<Rightarrow> world \<Rightarrow> world" where
  "logger_call lvl l msg as w =
     w\<lparr>sink_calls := sink_calls w @
        [\<lparr>e_level = lvl, e_logger = l, e_msg = msg, e_args = as\<rparr>]\<rparr>"

text \<open>Modelled from the spec: the context is an immutable carrier with one slot for the
  host's sink and its options and, for each of the SDK and the provider role, one slot
  for the logger, one for its options and one for its policy store (the keys and accessors
  are declared in \<^verbatim>\<open>internal/logging\<close>). The option structs and the policy stores are
  objects that contexts can share: their slots hold addresses.\<close>

record Context =
  slot_Sink :: "hclog_Logger option"
  slot_SinkOptions :: "addr option"
  slot_SDKRootLogger :: "hclog_Logger option"
  slot_SDKRootLoggerOptions :: "addr option"
  slot_SDKRootTFLoggerOpts :: "addr option"
  slot_ProviderRootLogger :: "hclog_Logger option"
  slot_ProviderRootLoggerOptions :: "addr option"
  slot_ProviderRootTFLoggerOpts :: "addr option"

definition Background :: Context where
  "Background =
     \<lparr>slot_Sink = None, slot_SinkOptions = None,
      slot_SDKRootLogger = None, slot_SDKRootLoggerOptions = None,
      slot_SDKRootTFLoggerOpts = None,
      slot_ProviderRootLogger = None, slot_ProviderRootLoggerOptions = None,
      slot_ProviderRootTFLoggerOpts = None\<rparr>"

text \<open>Modelled from the spec: the accessors of \<^verbatim>\<open>internal/logging\<close> that sdk.go calls, a
  getter that returns nil for an empty slot and a setter that returns a new context.\<close>

definition GetSink :: "Context \<Rightarrow> hclog_Logger option" where
  "GetSink ctx = slot_Sink ctx"

definition GetSinkOptions :: "Context \<Rightarrow> addr option" where
  "GetSinkOptions ctx = slot_SinkOptions ctx"

definition GetSDKRootLogger :: "Context \<Rightarrow> hclog_Logger option" where
  "GetSDKRootLogger ctx = slot_SDKRootLogger ctx"

definition SetSDKRootLogger :: "Context \<Rightarrow> hclog_Logger \<Rightarrow> Context" where
  "SetSDKRootLogger ctx l = ctx\<lparr>slot_SDKRootLogger := Some l\<rparr>"

definition SetSDKRootLoggerOptions :: "Context \<Rightarrow> addr \<Rightarrow> Context" where
  "SetSDKRootLoggerOptions ctx a = ctx\<lparr>slot_SDKRootLoggerOptions := Some a\<rparr>"

definition SetProviderRootLogger :: "Context \<Rightarrow> hclog_Logger \<Rightarrow> Context" where
  "SetProviderRootLogger ctx l = ctx\<lparr>slot_ProviderRootLogger := Some l\<rparr>"

definition SetProviderRootLoggerOptions :: "Context \<Rightarrow> addr \<Rightarrow> Context" where
  "SetProviderRootLoggerOptions ctx a = ctx\<lparr>slot_ProviderRootLoggerOptions := Some a\<rparr>"

text \<open>Modelled from the spec: section 3 and 4.7. \<^verbatim>\<open>GetSDKRootTFLoggerOpts\<close> reads the
  store the context points to, the empty store when the slot is empty.
  \<^verbatim>\<open>SetSDKRootTFLoggerOpts\<close> wraps the store it is given in a new context value: the
  store goes to a fresh address, and no store that is there already is written.\<close>

definition GetSDKRootTFLoggerOpts :: "world \<Rightarrow> Context \<Rightarrow> TFLoggerOpts" where
  "GetSDKRootTFLoggerOpts w ctx =
     (case slot_SDKRootTFLoggerOpts ctx of
        None \<Rightarrow> empty_TFLoggerOpts
      | Some a \<Rightarrow> (case store_at w a of None \<Rightarrow> empty_TFLoggerOpts | Some lOpts \<Rightarrow> lOpts))"

definition SetSDKRootTFLoggerOpts :: "world \<Rightarrow> Context \<Rightarrow> TFLoggerOpts \<Rightarrow> Context \<times> world" where
  "SetSDKRootTFLoggerOpts w ctx lOpts =
     (case new_store w lOpts of (a, w') \<Rightarrow> (ctx\<lparr>slot_SDKRootTFLoggerOpts := Some a\<rparr>, w'))"

text \<open>Modelled from the spec: the default names of the two roles (constants of
  \<^verbatim>\<open>internal/logging\<close>).\<close>

definition DefaultSDKRootLoggerName :: string where
  "DefaultSDKRootLoggerName = ''sdk''"

definition DefaultProviderRootLoggerName :: string where
  "DefaultProviderRootLoggerName = ''provider''"

text \<open>Modelled from the spec: \<^verbatim>\<open>hclogutils.LoggerOptionsCopy\<close> copies the recorded options
  by value into a new struct. The spec is silent on a sink without recorded options; the
  copy of a nil pointer is taken to be the zero struct.\<close>

definition LoggerOptionsCopy :: "world \<Rightarrow> addr option \<Rightarrow> addr \<times> world" where
  "LoggerOptionsCopy w src =
     (case src of
        None \<Rightarrow> new_opts w zero_LoggerOptions
      | Some a \<Rightarrow>
          (case opts_at w a of
             None \<Rightarrow> new_opts w zero_LoggerOptions
           | Some so \<Rightarrow>
               new_opts w
                 \<lparr>Name = Name so, Level = Level so, Output = Output so,
                  JSONFormat = JSONFormat so, IncludeLocation = IncludeLocation so,
                  AdditionalLocationOffset = AdditionalLocationOffset so,
                  TimeFormat = TimeFormat so, DisableTime = DisableTime so,
                  IndependentLevels = IndependentLevels so\<rparr>))"

text \<open>Modelled from the spec: section 4.2. \<^verbatim>\<open>hclogutils.MapsToArgs\<close> goes through the
  maps in call order; a key seen before keeps its position and takes the later value.\<close>

definition MapsToArgs :: "fields list \<Rightarrow> args" where
  "MapsToArgs maps = foldl (\<lambda>acc m. foldl (\<lambda>acc' (k, v). AList.update k v acc') acc m) [] maps"

text \<open>Modelled from the spec: the mask token, three asterisks.\<close>

definition logMaskingReplacementString :: string where
  "logMaskingReplacementString = ''***''"

text \<open>Modelled from the spec: section 4.4. \<^verbatim>\<open>ShouldOmit\<close> looks at the keys of the
  permanent and the transient fields, then at the message patterns, then at the message
  literals; the first rule that matches decides.\<close>

definition ShouldOmit :: "TFLoggerOpts \<Rightarrow> string \<Rightarrow> args \<Rightarrow> args \<Rightarrow> bool" where
  "ShouldOmit lOpts msg impliedArgs additionalArgs =
     (if list_ex (\<lambda>k. k \<in> set (omitByFieldKeys lOpts)) (map fst (impliedArgs @ additionalArgs))
      then True
      else if list_ex (\<lambda>r. MatchString r msg) (omitByMessageMatches lOpts) then True
      else list_ex (\<lambda>s. Contains msg s) (omitByMessageStrings lOpts))"

text \<open>Modelled from the spec: section 4.5. A transient field whose key is a masked key
  takes the token as its value.\<close>

definition mask_field :: "string list \<Rightarrow> string \<times> val \<Rightarrow> string \<times> val" where
  "mask_field keys kv =
     (if fst kv \<in> set keys then (fst kv, VString logMaskingReplacementString) else kv)"

text \<open>Modelled from the spec: section 4.5. \<^verbatim>\<open>ApplyMask\<close> works in place on the message
  and on the two argument slices it is given. The model returns the three as the call
  leaves them: the message after every pattern and then every literal has been replaced,
  in rule order, the permanent fields as they were, and the transient fields with the
  masked ones set to the token.\<close>

definition ApplyMask ::
  "TFLoggerOpts \<Rightarrow> string \<Rightarrow> args \<Rightarrow> args \<Rightarrow> string \<times> args \<times> args" where
  "ApplyMask lOpts msg impliedArgs additionalArgs =
     (let additionalArgs' = map (mask_field (maskFieldValueByFieldKeys lOpts)) additionalArgs;
          msg1 = foldl (\<lambda>m r. ReplaceAllString r m logMaskingReplacementString) msg
                   (maskMessageByMatches lOpts);
          msg2 = foldl (\<lambda>m s. ReplaceAll m s logMaskingReplacementString) msg1
                   (maskMessageByStrings lOpts)
      in (msg2, impliedArgs, additionalArgs'))"

text \<open>Modelled from the spec: section 4.7. The six option functions of
  \<^verbatim>\<open>internal/logging\<close> append the given rules to one rule set of the store they are
  given and return the extended store.\<close>

definition WithOmitLogWithFieldKeys :: "string list \<Rightarrow> TFLoggerOpts \<Rightarrow> TFLoggerOpts" where
  "WithOmitLogWithFieldKeys keys l = l\<lparr>omitByFieldKeys := omitByFieldKeys l @ keys\<rparr>"

definition WithOmitLogWithMessageRegexes :: "regexp list \<Rightarrow> TFLoggerOpts \<Rightarrow> TFLoggerOpts" where
  "WithOmitLogWithMessageRegexes expressions l =
     l\<lparr>omitByMessageMatches := omitByMessageMatches l @ expressions\<rparr>"

definition WithOmitLogWithMessageStrings :: "string list \<Rightarrow> TFLoggerOpts \<Rightarrow> TFLoggerOpts" where
  "WithOmitLogWithMessageStrings matchingStrings l =
     l\<lparr>omitByMessageStrings := omitByMessageStrings l @ matchingStrings\<rparr>"

definition WithMaskFieldValuesWithFieldKeys :: "string list \<Rightarrow> TFLoggerOpts \<Rightarrow> TFLoggerOpts" where
  "WithMaskFieldValuesWithFieldKeys keys l =
     l\<lparr>maskFieldValueByFieldKeys := maskFieldValueByFieldKeys l @ keys\<rparr>"

definition WithMaskMessageRegexes :: "regexp list \<Rightarrow> TFLoggerOpts \<Rightarrow> TFLoggerOpts" where
  "WithMaskMessageRegexes expressions l =
     l\<lparr>maskMessageByMatches := maskMessageByMatches l @ expressions\<rparr>"

definition WithMaskMessageStrings :: "string list \<Rightarrow> TFLoggerOpts \<Rightarrow> TFLoggerOpts" where
  "WithMaskMessageStrings matchingStrings l =
     l\<lparr>maskMessageByStrings := maskMessageByStrings l @ matchingStrings\<rparr>"

subsection \<open>sdk.go\<close>

text \<open>\<^verbatim>\<open>NewRootSDKLogger(ctx, options...)\<close>; \<open>opts0\<close> is the result of
  \<^verbatim>\<open>logging.ApplyLoggerOpts(options...)\<close>.\<close>

definition NewRootSDKLogger :: "world \<Rightarrow> Context \<Rightarrow> LoggerOpts \<Rightarrow> Context \<times> world" where
  "NewRootSDKLogger w ctx opts0 =
     (let opts = (if opt_Name opts0 = [] then opts0\<lparr>opt_Name := DefaultSDKRootLoggerName\<rparr>
                  else opts0)
      in case GetSink ctx of
           Some sink \<Rightarrow>
             (let logger = Named sink (opt_Name opts);
                  sinkLoggerOptions = GetSinkOptions ctx;
                  (sdkLoggerOptions, w1) = LoggerOptionsCopy w sinkLoggerOptions;
                  w2 = update_opts sdkLoggerOptions (\<lambda>so. so\<lparr>Name := opt_Name opts\<rparr>) w1;
                  (logger', w3) =
                    (if opt_Level opts \<noteq> NoLevel
                     then (SetLevel logger (opt_Level opts),
                           update_opts sdkLoggerOptions (\<lambda>so. so\<lparr>Level := opt_Level opts\<rparr>) w2)
                     else (logger, w2));
                  ctx1 = SetSDKRootLogger ctx logger';
                  ctx2 = SetSDKRootLoggerOptions ctx1 sdkLoggerOptions
              in (ctx2, w3))
         | None \<Rightarrow>
             (let opts' = (if opt_Level opts = NoLevel then opts\<lparr>opt_Level := LvTrace\<rparr>
                           else opts);
                  lo = \<lparr>Name = opt_Name opts', Level = opt_Level opts',
                        Output = opt_Output opts', JSONFormat = True,
                        IncludeLocation = opt_IncludeLocation opts',
                        AdditionalLocationOffset = opt_AdditionalLocationOffset opts',
                        TimeFormat = [], DisableTime = (\<not> opt_IncludeTime opts'),
                        IndependentLevels = True\<rparr>;
                  (loggerOptions, w1) = new_opts w lo;
                  ctx1 = SetSDKRootLogger ctx (hclog_New lo);
                  ctx2 = SetSDKRootLoggerOptions ctx1 loggerOptions
              in (ctx2, w1)))"

text \<open>\<^verbatim>\<open>NewRootProviderLogger(ctx, options...)\<close>.\<close>

definition NewRootProviderLogger :: "world \<Rightarrow> Context \<Rightarrow> LoggerOpts \<Rightarrow> Context \<times> world" where
  "NewRootProviderLogger w ctx opts0 =
     (let opts = (if opt_Name opts0 = []
                  then opts0\<lparr>opt_Name := DefaultProviderRootLoggerName\<rparr> else opts0)
      in case GetSink ctx of
           Some sink \<Rightarrow>
             (let logger = Named sink (opt_Name opts);
                  sinkLoggerOptions = GetSinkOptions ctx;
                  (providerLoggerOptions, w1) = LoggerOptionsCopy w sinkLoggerOptions;
                  w2 = update_opts providerLoggerOptions (\<lambda>so. so\<lparr>Name := opt_Name opts\<rparr>) w1;
                  (logger', w3) =
                    (if opt_Level opts \<noteq> NoLevel
                     then (SetLevel logger (opt_Level opts),
                           update_opts providerLoggerOptions
                             (\<lambda>so. so\<lparr>Level := opt_Level opts\<rparr>) w2)
                     else (logger, w2));
                  ctx1 = SetProviderRootLogger ctx logger';
                  ctx2 = SetProviderRootLoggerOptions ctx1 providerLoggerOptions
              in (ctx2, w3))
         | None \<Rightarrow>
             (let opts' = (if opt_Level opts = NoLevel then opts\<lparr>opt_Level := LvTrace\<rparr>
                           else opts);
                  lo = \<lparr>Name = opt_Name opts', Level = opt_Level opts',
                        Output = opt_Output opts', JSONFormat = True,
                        IncludeLocation = opt_IncludeLocation opts',
                        AdditionalLocationOffset = opt_AdditionalLocationOffset opts',
                        TimeFormat = [], DisableTime = (\<not> opt_IncludeTime opts'),
                        IndependentLevels = True\<rparr>;
                  (loggerOptions, w1) = new_opts w lo;
                  ctx1 = SetProviderRootLogger ctx (hclog_New lo);
                  ctx2 = SetProviderRootLoggerOptions ctx1 loggerOptions
              in (ctx2, w1)))"

text \<open>\<^verbatim>\<open>SetField(ctx, key, value)\<close>.\<close>

definition SetField :: "Context \<Rightarrow> string \<Rightarrow> val \<Rightarrow> Context" where
  "SetField ctx key v =
     (case GetSDKRootLogger ctx of
        None \<Rightarrow> ctx
      | Some logger \<Rightarrow> SetSDKRootLogger ctx (With logger key v))"

text \<open>\<^verbatim>\<open>omitOrMask(ctx, logger, msg, additionalFields)\<close> returns the arguments and the
  omission flag. The model returns two more components, for what the call does through
  its pointers: the message as \<^verbatim>\<open>*msg\<close> holds it afterwards, and the logger with its bound
  fields as \<^verbatim>\<open>ApplyMask\<close> leaves the slice that \<^verbatim>\<open>ImpliedArgs\<close> handed out. It reads the
  policy store of the context in the state \<open>w\<close>.\<close>

definition omitOrMask ::
  "world \<Rightarrow> Context \<Rightarrow> hclog_Logger \<Rightarrow> string \<Rightarrow> fields list
     \<Rightarrow> args \<times> bool \<times> string \<times> hclog_Logger" where
  "omitOrMask w ctx logger msg additionalFields =
     (let tfLoggerOpts = GetSDKRootTFLoggerOpts w ctx;
          additionalArgs = MapsToArgs additionalFields;
          impliedArgs = ImpliedArgs logger
      in if ShouldOmit tfLoggerOpts msg impliedArgs additionalArgs
         then ([], True, msg, logger)
         else (case ApplyMask tfLoggerOpts msg impliedArgs additionalArgs of
                 (msg', impliedArgs', additionalArgs') \<Rightarrow>
                   (additionalArgs', False, msg', logger\<lparr>implied := impliedArgs'\<rparr>)))"

text \<open>The five emit operations.\<close>

definition Trace :: "world \<Rightarrow> Context \<Rightarrow> string \<Rightarrow> fields list \<Rightarrow> world" where
  "Trace w ctx msg additionalFields =
     (case GetSDKRootLogger ctx of
        None \<Rightarrow> w
      | Some logger \<Rightarrow>
          (case omitOrMask w ctx logger msg additionalFields of
             (additionalArgs, shouldOmit, msg', logger') \<Rightarrow>
               if shouldOmit then w else logger_call LvTrace logger' msg' additionalArgs w))"

definition Debug :: "world \<Rightarrow> Context \<Rightarrow> string \<Rightarrow> fields list \<Rightarrow> world" where
  "Debug w ctx msg additionalFields =
     (case GetSDKRootLogger ctx of
        None \<Rightarrow> w
      | Some logger \<Rightarrow>
          (case omitOrMask w ctx logger msg additionalFields of
             (additionalArgs, shouldOmit, msg', logger') \<Rightarrow>
               if shouldOmit then w else logger_call LvDebug logger' msg' additionalArgs w))"

definition Info :: "world \<Rightarrow> Context \<Rightarrow> string \<Rightarrow> fields list \<Rightarrow> world" where
  "Info w ctx msg additionalFields =
     (case GetSDKRootLogger ctx of
        None \<Rightarrow> w
      | Some logger \<Rightarrow>
          (case omitOrMask w ctx logger msg additionalFields of
             (additionalArgs, shouldOmit, msg', logger') \<Rightarrow>
               if shouldOmit then w else logger_call LvInfo logger' msg' additionalArgs w))"

definition Warn :: "world \<Rightarrow> Context \<Rightarrow> string \<Rightarrow> fields list \<Rightarrow> world" where
  "Warn w ctx msg additionalFields =
     (case GetSDKRootLogger ctx of
        None \<Rightarrow> w
      | Some logger \<Rightarrow>
          (case omitOrMask w ctx logger msg additionalFields of
             (additionalArgs, shouldOmit, msg', logger') \<Rightarrow>
               if shouldOmit then w else logger_call LvWarn logger' msg' additionalArgs w))"

definition Error :: "world \<Rightarrow> Context \<Rightarrow> string \<Rightarrow> fields list \<Rightarrow> world" where
  "Error w ctx msg additionalFields =
     (case GetSDKRootLogger ctx of
        None \<Rightarrow> w
      | Some logger \<Rightarrow>
          (case omitOrMask w ctx logger msg additionalFields of
             (additionalArgs, shouldOmit, msg', logger') \<Rightarrow>
               if shouldOmit then w else logger_call LvError logger' msg' additionalArgs w))"

text \<open>The six policy-extension operations. Each returns the new context, and the state
  with the store that the new context carries.\<close>

definition OmitLogWithFieldKeys :: "world \<Rightarrow> Context \<Rightarrow> string list \<Rightarrow> Context \<times> world" where
  "OmitLogWithFieldKeys w ctx keys =
     (let lOpts = GetSDKRootTFLoggerOpts w ctx;
          lOpts' = WithOmitLogWithFieldKeys keys lOpts
      in SetSDKRootTFLoggerOpts w ctx lOpts')"

definition OmitLogWithMessageRegexes :: "world \<Rightarrow> Context \<Rightarrow> regexp list \<Rightarrow> Context \<times> world" where
  "OmitLogWithMessageRegexes w ctx expressions =
     (let lOpts = GetSDKRootTFLoggerOpts w ctx;
          lOpts' = WithOmitLogWithMessageRegexes expressions lOpts
      in SetSDKRootTFLoggerOpts w ctx lOpts')"

definition OmitLogWithMessageStrings :: "world \<Rightarrow> Context \<Rightarrow> string list \<Rightarrow> Context \<times> world" where
  "OmitLogWithMessageStrings w ctx matchingStrings =
     (let lOpts = GetSDKRootTFLoggerOpts w ctx;
          lOpts' = WithOmitLogWithMessageStrings matchingStrings lOpts
      in SetSDKRootTFLoggerOpts w ctx lOpts')"

definition MaskFieldValuesWithFieldKeys :: "world \<Rightarrow> Context \<Rightarrow> string list \<Rightarrow> Context \<times> world" where
  "MaskFieldValuesWithFieldKeys w ctx keys =
     (let lOpts = GetSDKRootTFLoggerOpts w ctx;
          lOpts' = WithMaskFieldValuesWithFieldKeys keys lOpts
      in SetSDKRootTFLoggerOpts w ctx lOpts')"

definition MaskMessageRegexes :: "world \<Rightarrow> Context \<Rightarrow> regexp list \<Rightarrow> Context \<times> world" where
  "MaskMessageRegexes w ctx expressions =
     (let lOpts = GetSDKRootTFLoggerOpts w ctx;
          lOpts' = WithMaskMessageRegexes expressions lOpts
      in SetSDKRootTFLoggerOpts w ctx lOpts')"

definition MaskMessageStrings :: "world \<Rightarrow> Context \<Rightarrow> string list \<Rightarrow> Context \<times> world" where
  "MaskMessageStrings w ctx matchingStrings =
     (let lOpts = GetSDKRootTFLoggerOpts w ctx;
          lOpts' = WithMaskMessageStrings matchingStrings lOpts
      in SetSDKRootTFLoggerOpts w ctx lOpts')"

text \<open>The five emit operations under one name, for statements about all of them, and the
  level method each one calls.\<close>

datatype emit_op = OpTrace | OpDebug | OpInfo | OpWarn | OpError

fun emit :: "emit_op \<Rightarrow> world \<Rightarrow> Context \<Rightarrow> string \<Rightarrow> fields list \<Rightarrow> world" where
  "emit OpTrace = Trace"
| "emit OpDebug = Debug"
| "emit OpInfo = Info"
| "emit OpWarn = Warn"
| "emit OpError = Error"

fun level_of :: "emit_op \<Rightarrow> hclog_Level" where
  "level_of OpTrace = LvTrace"
| "level_of OpDebug = LvDebug"
| "level_of OpInfo = LvInfo"
| "level_of OpWarn = LvWarn"
| "level_of OpError = LvError"

text \<open>The six policy-extension operations under one name, each with the rules it is
  given.\<close>

datatype rules =
    OmitFieldKeys "string list"
  | OmitMessageRegexes "regexp list"
  | OmitMessageStrings "string list"
  | MaskFieldKeys "string list"
  | MaskRegexes "regexp list"
  | MaskStrings "string list"

fun extend_policy :: "rules \<Rightarrow> world \<Rightarrow> Context \<Rightarrow> Context \<times> world" where
  "extend_policy (OmitFieldKeys keys) w ctx = OmitLogWithFieldKeys w ctx keys"
| "extend_policy (OmitMessageRegexes expressions) w ctx = OmitLogWithMessageRegexes w ctx expressions"
| "extend_policy (OmitMessageStrings matchingStrings) w ctx = OmitLogWithMessageStrings w ctx matchingStrings"
| "extend_policy (MaskFieldKeys keys) w ctx = MaskFieldValuesWithFieldKeys w ctx keys"
| "extend_policy (MaskRegexes expressions) w ctx = MaskMessageRegexes w ctx expressions"
| "extend_policy (MaskStrings matchingStrings) w ctx = MaskMessageStrings w ctx matchingStrings"

subsection \<open>What the specification says\<close>

text \<open>Section 4.7, the store after a policy extension: the rules are appended to the
  matching rule set, and the other five sets are as they were.\<close>

fun spec_extended :: "rules \<Rightarrow> TFLoggerOpts \<Rightarrow> TFLoggerOpts" where
  "spec_extended (OmitFieldKeys keys) s = s\<lparr>omitByFieldKeys := omitByFieldKeys s @ keys\<rparr>"
| "spec_extended (OmitMessageRegexes res) s =
     s\<lparr>omitByMessageMatches := omitByMessageMatches s @ res\<rparr>"
| "spec_extended (OmitMessageStrings lits) s =
     s\<lparr>omitByMessageStrings := omitByMessageStrings s @ lits\<rparr>"
| "spec_extended (MaskFieldKeys keys) s =
     s\<lparr>maskFieldValueByFieldKeys := maskFieldValueByFieldKeys s @ keys\<rparr>"
| "spec_extended (MaskRegexes res) s =
     s\<lparr>maskMessageByMatches := maskMessageByMatches s @ res\<rparr>"
| "spec_extended (MaskStrings lits) s =
     s\<lparr>maskMessageByStrings := maskMessageByStrings s @ lits\<rparr>"

text \<open>A context is well-formed in a state when its SDK policy slot is empty or holds the
  address of a store of that state.\<close>

definition store_ok :: "world \<Rightarrow> Context \<Rightarrow> bool" where
  "store_ok w ctx =
     (case slot_SDKRootTFLoggerOpts ctx of None \<Rightarrow> True | Some a \<Rightarrow> a < length (store_heap w))"

text \<open>Section 4.1, without a host sink: the name defaulted to the role name, the level
  defaulted to the most verbose one, JSON output, independent levels, and the location
  flag, the time flag, the offset and the output as given.\<close>

definition spec_standalone_options :: "string \<Rightarrow> LoggerOpts \<Rightarrow> hclog_LoggerOptions" where
  "spec_standalone_options role opts =
     \<lparr>Name = (if opt_Name opts = [] then role else opt_Name opts),
      Level = (if opt_Level opts = NoLevel then LvTrace else opt_Level opts),
      Output = opt_Output opts,
      JSONFormat = True,
      IncludeLocation = opt_IncludeLocation opts,
      AdditionalLocationOffset = opt_AdditionalLocationOffset opts,
      TimeFormat = [],
      DisableTime = (\<not> opt_IncludeTime opts),
      IndependentLevels = True\<rparr>"

text \<open>Section 4.1, with a host sink: the sink's recorded options with the name replaced
  and, when the caller gave a level, the level replaced.\<close>

definition spec_derived_options ::
  "string \<Rightarrow> LoggerOpts \<Rightarrow> hclog_LoggerOptions \<Rightarrow> hclog_LoggerOptions" where
  "spec_derived_options role opts so =
     so\<lparr>Name := (if opt_Name opts = [] then role else opt_Name opts),
        Level := (if opt_Level opts = NoLevel then Level so else opt_Level opts)\<rparr>"





subsection \<open>The provider's slots\<close>

text \<open>The three slots of the provider role read together, and a context with those three
  slots replaced.\<close>

definition provider_slots ::
  "Context \<Rightarrow> hclog_Logger option \<times> addr option \<times> addr option" where
  "provider_slots ctx =
     (slot_ProviderRootLogger ctx, slot_ProviderRootLoggerOptions ctx,
      slot_ProviderRootTFLoggerOpts ctx)"

definition with_provider_slots ::
  "Context \<Rightarrow> hclog_Logger option \<Rightarrow> addr option \<Rightarrow> addr option \<Rightarrow> Context" where
  "with_provider_slots ctx pl po pt =
     ctx\<lparr>slot_ProviderRootLogger := pl, slot_ProviderRootLoggerOptions := po,
         slot_ProviderRootTFLoggerOpts := pt\<rparr>"

subsection \<open>Example values\<close>

text \<open>A state with empty heaps and a silent sink, a logger, and a context that carries
  only that logger as SDK root logger.\<close>

definition ex_world :: world where
  "ex_world = \<lparr>opts_heap = [], store_heap = [], sink_calls = []\<rparr>"

definition ex_logger :: hclog_Logger where
  "ex_logger = \<lparr>lname = ''sdk'', llevel = LvTrace, implied = []\<rparr>"

definition ex_ctx :: Context where
  "ex_ctx = SetSDKRootLogger Background ex_logger"

text \<open>A logger with the field \<^verbatim>\<open>token\<close> bound to it.\<close>

definition ex_token_logger :: hclog_Logger where
  "ex_token_logger = \<lparr>lname = ''sdk'', llevel = LvTrace, implied = [(''token'', VString ''abc'')]\<rparr>"



text \<open>Resolved options with neither name nor level, and a host whose sink and recorded
  options are in the context.\<close>

definition ex_opts :: LoggerOpts where
  "ex_opts = \<lparr>opt_Name = [], opt_Level = NoLevel, opt_IncludeLocation = True,
              opt_IncludeTime = True, opt_Output = Some 2, opt_AdditionalLocationOffset = 1\<rparr>"

definition ex_sink_options :: hclog_LoggerOptions where
  "ex_sink_options =
     \<lparr>Name = ''host'', Level = LvInfo, Output = Some 2, JSONFormat = True,
      IncludeLocation = False, AdditionalLocationOffset = 0, TimeFormat = ''2006'',
      DisableTime = True, IndependentLevels = False\<rparr>"

definition ex_sink_world :: world where
  "ex_sink_world = \<lparr>opts_heap = [ex_sink_options], store_heap = [], sink_calls = []\<rparr>"

definition ex_sink_ctx :: Context where
  "ex_sink_ctx =
     Background\<lparr>slot_Sink := Some \<lparr>lname = ''host'', llevel = LvInfo, implied = []\<rparr>,
                slot_SinkOptions := Some 0\<rparr>"

text \<open>The context with a masking rule for the message \<^verbatim>\<open>login\<close> and then an omission
  rule for the key \<^verbatim>\<open>password\<close>, with its state; the context with a masking rule for
  the key \<^verbatim>\<open>token\<close> on the logger that has that key bound; a context that has an
  omission rule already; and the context with the masking literals \<^verbatim>\<open>se\<close> and
  \<^verbatim>\<open>secret\<close>, in this order.\<close>

definition ex_login :: "Context \<times> world" where
  "ex_login =
     (case MaskMessageStrings ex_world ex_ctx [''login''] of
        (ctx, w) \<Rightarrow> OmitLogWithFieldKeys w ctx [''password''])"

definition ex_token :: "Context \<times> world" where
  "ex_token =
     MaskFieldValuesWithFieldKeys ex_world (SetSDKRootLogger Background ex_token_logger) [''token'']"

definition ex_base :: "Context \<times> world" where
  "ex_base = OmitLogWithMessageStrings ex_world ex_ctx [''secret'']"


section \<open>Properties\<close>

subsection \<open>Auxiliary facts\<close>

lemmas slot_defs =
  GetSink_def GetSinkOptions_def GetSDKRootLogger_def SetSDKRootLogger_def
  SetSDKRootLoggerOptions_def SetProviderRootLogger_def SetProviderRootLoggerOptions_def

lemmas store_defs =
  GetSDKRootTFLoggerOpts_def SetSDKRootTFLoggerOpts_def store_at_def new_store_def

lemmas extension_defs =
  OmitLogWithFieldKeys_def OmitLogWithMessageRegexes_def OmitLogWithMessageStrings_def
  MaskFieldValuesWithFieldKeys_def MaskMessageRegexes_def MaskMessageStrings_def
  WithOmitLogWithFieldKeys_def WithOmitLogWithMessageRegexes_def
  WithOmitLogWithMessageStrings_def WithMaskFieldValuesWithFieldKeys_def
  WithMaskMessageRegexes_def WithMaskMessageStrings_def Let_def

lemmas example_defs = ex_world_def ex_logger_def ex_ctx_def Background_def empty_TFLoggerOpts_def

lemma merge_keys:
  "fst ` set (foldl (\<lambda>acc' (k, v). AList.update k v acc') acc m) = fst ` set acc \<union> fst ` set m"
proof (induction m arbitrary: acc)
  case Nil
  show ?case by simp
next
  case (Cons kv m)
  obtain k v where kv: "kv = (k, v)" by (cases kv)
  have "fst ` set (foldl (\<lambda>acc' (k, v). AList.update k v acc') (AList.update k v acc) m)
          = fst ` set (AList.update k v acc) \<union> fst ` set m"
    by (rule Cons.IH)
  then show ?case by (simp add: kv dom_update Un_assoc)
qed

lemma foldl_merge_keys:
  "fst ` set (foldl (\<lambda>acc m. foldl (\<lambda>acc' (k, v). AList.update k v acc') acc m) acc maps)
     = fst ` set acc \<union> (\<Union>m\<in>set maps. fst ` set m)"
  by (induction maps arbitrary: acc) (auto simp: merge_keys)

lemma MapsToArgs_keys: "fst ` set (MapsToArgs maps) = (\<Union>m\<in>set maps. fst ` set m)"
  by (simp add: MapsToArgs_def foldl_merge_keys)

lemma omitOrMask_omitted:
  "ShouldOmit (GetSDKRootTFLoggerOpts w ctx) msg (ImpliedArgs l) (MapsToArgs fs)
   \<Longrightarrow> omitOrMask w ctx l msg fs = ([], True, msg, l)"
  by (simp add: omitOrMask_def)

lemma omitOrMask_kept:
  "\<not> ShouldOmit (GetSDKRootTFLoggerOpts w ctx) msg (ImpliedArgs l) (MapsToArgs fs)
   \<Longrightarrow> omitOrMask w ctx l msg fs =
       (case ApplyMask (GetSDKRootTFLoggerOpts w ctx) msg (ImpliedArgs l) (MapsToArgs fs) of
          (msg', ia, aa) \<Rightarrow> (aa, False, msg', l\<lparr>implied := ia\<rparr>))"
  by (simp add: omitOrMask_def)

lemma ShouldOmit_key:
  "K \<in> set (omitByFieldKeys lOpts) \<Longrightarrow> K \<in> fst ` set ia \<union> fst ` set aa
   \<Longrightarrow> ShouldOmit lOpts msg ia aa"
  by (auto simp: ShouldOmit_def list_ex_iff)

lemma emits_omitted:
  assumes "GetSDKRootLogger ctx = Some l"
      and "ShouldOmit (GetSDKRootTFLoggerOpts w ctx) msg (ImpliedArgs l) (MapsToArgs fs)"
  shows "Trace w ctx msg fs = w" "Debug w ctx msg fs = w" "Info w ctx msg fs = w"
        "Warn w ctx msg fs = w" "Error w ctx msg fs = w"
  using assms
  by (simp_all add: Trace_def Debug_def Info_def Warn_def Error_def omitOrMask_omitted)

lemma emits_kept:
  assumes "GetSDKRootLogger ctx = Some l"
      and "\<not> ShouldOmit (GetSDKRootTFLoggerOpts w ctx) msg (ImpliedArgs l) (MapsToArgs fs)"
      and "ApplyMask (GetSDKRootTFLoggerOpts w ctx) msg (ImpliedArgs l) (MapsToArgs fs)
             = (msg', ia, aa)"
  shows "Trace w ctx msg fs = logger_call LvTrace (l\<lparr>implied := ia\<rparr>) msg' aa w"
        "Debug w ctx msg fs = logger_call LvDebug (l\<lparr>implied := ia\<rparr>) msg' aa w"
        "Info w ctx msg fs = logger_call LvInfo (l\<lparr>implied := ia\<rparr>) msg' aa w"
        "Warn w ctx msg fs = logger_call LvWarn (l\<lparr>implied := ia\<rparr>) msg' aa w"
        "Error w ctx msg fs = logger_call LvError (l\<lparr>implied := ia\<rparr>) msg' aa w"
  using assms
  by (simp_all add: Trace_def Debug_def Info_def Warn_def Error_def omitOrMask_kept)

lemma emit_omitted:
  assumes "GetSDKRootLogger ctx = Some l"
      and "ShouldOmit (GetSDKRootTFLoggerOpts w ctx) msg (ImpliedArgs l) (MapsToArgs fs)"
  shows "emit op w ctx msg fs = w"
  using assms by (cases op) (simp_all add: emits_omitted)

lemma emit_kept:
  assumes "GetSDKRootLogger ctx = Some l"
      and "\<not> ShouldOmit (GetSDKRootTFLoggerOpts w ctx) msg (ImpliedArgs l) (MapsToArgs fs)"
      and "ApplyMask (GetSDKRootTFLoggerOpts w ctx) msg (ImpliedArgs l) (MapsToArgs fs)
             = (msg', ia, aa)"
  shows "emit op w ctx msg fs = logger_call (level_of op) (l\<lparr>implied := ia\<rparr>) msg' aa w"
  using assms by (cases op) (simp_all add: emits_kept)

declare extend_policy.simps [simp del]

lemma extend_result:
  "extend_policy e w ctx =
     (ctx\<lparr>slot_SDKRootTFLoggerOpts := Some (length (store_heap w))\<rparr>,
      w\<lparr>store_heap := store_heap w @ [spec_extended e (GetSDKRootTFLoggerOpts w ctx)]\<rparr>)"
  by (cases e)
     (simp_all add: extend_policy.simps extension_defs SetSDKRootTFLoggerOpts_def new_store_def)

lemma extension_as_extend:
  "OmitLogWithFieldKeys w ctx keys = extend_policy (OmitFieldKeys keys) w ctx"
  "OmitLogWithMessageRegexes w ctx res = extend_policy (OmitMessageRegexes res) w ctx"
  "OmitLogWithMessageStrings w ctx lits = extend_policy (OmitMessageStrings lits) w ctx"
  "MaskFieldValuesWithFieldKeys w ctx keys = extend_policy (MaskFieldKeys keys) w ctx"
  "MaskMessageRegexes w ctx res = extend_policy (MaskRegexes res) w ctx"
  "MaskMessageStrings w ctx lits = extend_policy (MaskStrings lits) w ctx"
  by (simp_all add: extend_policy.simps)

lemma store_of_new:
  "GetSDKRootTFLoggerOpts (w\<lparr>store_heap := store_heap w @ [s]\<rparr>)
     (ctx\<lparr>slot_SDKRootTFLoggerOpts := Some (length (store_heap w))\<rparr>) = s"
  by (simp add: store_defs)

lemma store_of_old:
  "store_ok w c \<Longrightarrow>
   GetSDKRootTFLoggerOpts (w\<lparr>store_heap := store_heap w @ xs\<rparr>) c = GetSDKRootTFLoggerOpts w c"
  by (simp add: store_defs store_ok_def nth_append split: option.splits)

lemma store_after_extend:
  "GetSDKRootTFLoggerOpts (snd (extend_policy e w ctx)) (fst (extend_policy e w ctx))
     = spec_extended e (GetSDKRootTFLoggerOpts w ctx)"
  by (simp add: extend_result store_of_new)

lemma logger_after_extend:
  "GetSDKRootLogger (fst (extend_policy e w ctx)) = GetSDKRootLogger ctx"
  by (simp add: extend_result GetSDKRootLogger_def)

subsection \<open>Omission comes before masking\<close>

text \<open>
  C1. When the policy store of the context omits the entry (ShouldOmit holds of the
  message, the logger's bound fields and the merged fields of the call), every emit
  operation returns the state it was given, so nothing reaches the sink, and omitOrMask
  returns the nil arguments with the flag set, the message cell and the logger's fields
  as they were: masking has had no effect, whatever masking rules the store holds.
\<close>

theorem omission_before_masking:
  assumes "GetSDKRootLogger ctx = Some logger"
      and "ShouldOmit (GetSDKRootTFLoggerOpts w ctx) msg (ImpliedArgs logger) (MapsToArgs fs)"
  shows "omitOrMask w ctx logger msg fs = ([], True, msg, logger)
       \<and> Trace w ctx msg fs = w \<and> Debug w ctx msg fs = w \<and> Info w ctx msg fs = w
       \<and> Warn w ctx msg fs = w \<and> Error w ctx msg fs = w"
  using assms by (simp add: omitOrMask_omitted emits_omitted)

theorem omission_before_masking_witness:
  "GetSDKRootLogger (fst ex_login) = Some ex_logger
   \<and> ShouldOmit (GetSDKRootTFLoggerOpts (snd ex_login) (fst ex_login))
       ''login'' (ImpliedArgs ex_logger) (MapsToArgs [[(''password'', VString ''x'')]])
   \<and> fst (ApplyMask (GetSDKRootTFLoggerOpts (snd ex_login) (fst ex_login))
       ''login'' (ImpliedArgs ex_logger) (MapsToArgs [[(''password'', VString ''x'')]]))
     = ''***''
   \<and> omitOrMask (snd ex_login) (fst ex_login) ex_logger ''login'' [[(''password'', VString ''x'')]]
     = ([], True, ''login'', ex_logger)
   \<and> Info (snd ex_login) (fst ex_login) ''login'' [[(''password'', VString ''x'')]]
     = snd ex_login"
proof -
  let ?fs = "[[(''password'', VString ''x'')]]"
  have s: "GetSDKRootTFLoggerOpts (snd ex_login) (fst ex_login)
             = empty_TFLoggerOpts\<lparr>omitByFieldKeys := [''password''],
                 maskMessageByStrings := [''login'']\<rparr>"
    by (simp add: ex_login_def extension_as_extend extend_result store_defs slot_defs
        example_defs)
  have h1: "GetSDKRootLogger (fst ex_login) = Some ex_logger"
    by (simp add: ex_login_def extension_as_extend extend_result slot_defs example_defs)
  have h2: "ShouldOmit (GetSDKRootTFLoggerOpts (snd ex_login) (fst ex_login)) ''login''
              (ImpliedArgs ex_logger) (MapsToArgs ?fs)"
    unfolding s
    by (simp add: ShouldOmit_def MapsToArgs_def ImpliedArgs_def empty_TFLoggerOpts_def)
  have h3: "fst (ApplyMask (GetSDKRootTFLoggerOpts (snd ex_login) (fst ex_login)) ''login''
              (ImpliedArgs ex_logger) (MapsToArgs ?fs)) = ''***''"
    unfolding s
    by (simp add: ApplyMask_def ReplaceAll_def logMaskingReplacementString_def
        empty_TFLoggerOpts_def)
  show ?thesis
    using h1 h2 h3 omission_before_masking [OF h1 h2] by simp
qed

subsection \<open>Omission by field key\<close>

text \<open>
  C2. After OmitLogWithFieldKeys has added the keys, an emit call on the returned context
  whose logger has a bound field with key K, or whose field maps hold the key K, for a
  K among the added keys, leaves the state as it was: the sink receives nothing, for
  every message.
\<close>

theorem omit_by_field_key:
  assumes "K \<in> set keys"
      and "GetSDKRootLogger ctx = Some logger"
      and "K \<in> fst ` set (ImpliedArgs logger) \<union> (\<Union>m\<in>set fs. fst ` set m)"
      and "OmitLogWithFieldKeys w ctx keys = (ctx', w')"
  shows "GetSDKRootLogger ctx' = Some logger
       \<and> Trace w' ctx' msg fs = w'
       \<and> Debug w' ctx' msg fs = w'
       \<and> Info w' ctx' msg fs = w'
       \<and> Warn w' ctx' msg fs = w'
       \<and> Error w' ctx' msg fs = w'"
proof -
  have c: "ctx' = fst (extend_policy (OmitFieldKeys keys) w ctx)"
    and w: "w' = snd (extend_policy (OmitFieldKeys keys) w ctx)"
    using assms(4) by (simp_all add: extension_as_extend)
  have l: "GetSDKRootLogger ctx' = Some logger"
    using assms(2) by (simp add: c logger_after_extend)
  have "K \<in> set (omitByFieldKeys (GetSDKRootTFLoggerOpts w' ctx'))"
    using assms(1) by (simp add: c w store_after_extend)
  moreover have "K \<in> fst ` set (ImpliedArgs logger) \<union> fst ` set (MapsToArgs fs)"
    using assms(3) by (simp only: MapsToArgs_keys)
  ultimately have "ShouldOmit (GetSDKRootTFLoggerOpts w' ctx') msg (ImpliedArgs logger)
      (MapsToArgs fs)"
    by (rule ShouldOmit_key)
  with l show ?thesis by (simp add: emits_omitted)
qed

theorem omit_by_field_key_witness:
  "''password'' \<in> set [''password'']
   \<and> GetSDKRootLogger ex_ctx = Some ex_logger
   \<and> ''password'' \<in> fst ` set (ImpliedArgs ex_logger)
        \<union> (\<Union>m\<in>set [[(''password'', VString ''x''), (''user'', VString ''a'')]]. fst ` set m)
   \<and> OmitLogWithFieldKeys ex_world ex_ctx [''password'']
       = (ex_ctx\<lparr>slot_SDKRootTFLoggerOpts := Some 0\<rparr>,
          ex_world\<lparr>store_heap := [empty_TFLoggerOpts\<lparr>omitByFieldKeys := [''password'']\<rparr>]\<rparr>)
   \<and> Info (ex_world\<lparr>store_heap := [empty_TFLoggerOpts\<lparr>omitByFieldKeys := [''password'']\<rparr>]\<rparr>)
        (ex_ctx\<lparr>slot_SDKRootTFLoggerOpts := Some 0\<rparr>) ''login''
        [[(''password'', VString ''x''), (''user'', VString ''a'')]]
       = ex_world\<lparr>store_heap := [empty_TFLoggerOpts\<lparr>omitByFieldKeys := [''password'']\<rparr>]\<rparr>"
proof -
  have h1: "''password'' \<in> set [''password'']" by simp
  have h2: "GetSDKRootLogger ex_ctx = Some ex_logger"
    by (simp add: slot_defs example_defs)
  have h3: "''password'' \<in> fst ` set (ImpliedArgs ex_logger)
        \<union> (\<Union>m\<in>set [[(''password'', VString ''x''), (''user'', VString ''a'')]]. fst ` set m)"
    by simp
  have h4: "OmitLogWithFieldKeys ex_world ex_ctx [''password'']
       = (ex_ctx\<lparr>slot_SDKRootTFLoggerOpts := Some 0\<rparr>,
          ex_world\<lparr>store_heap := [empty_TFLoggerOpts\<lparr>omitByFieldKeys := [''password'']\<rparr>]\<rparr>)"
    by (simp add: extension_as_extend extend_result store_defs slot_defs example_defs)
  show ?thesis
    using h1 h2 h3 h4 omit_by_field_key [OF h1 h2 h3 h4, of "''login''"] by simp
qed

subsection \<open>Emitting without a root logger\<close>

text \<open>
  C3. An emit call (Trace, Debug, Info, Warn, Error) on a context without an SDK root
  logger is a silent no-op: it returns, and the state it returns is the state it was
  given, so the sink has received nothing.
\<close>

theorem emit_without_logger_noop:
  assumes "GetSDKRootLogger ctx = None"
  shows "Trace w ctx msg fs = w \<and> Debug w ctx msg fs = w \<and> Info w ctx msg fs = w
       \<and> Warn w ctx msg fs = w \<and> Error w ctx msg fs = w"
  using assms by (simp add: Trace_def Debug_def Info_def Warn_def Error_def)

theorem emit_without_logger_noop_witness:
  "GetSDKRootLogger Background = None
   \<and> Trace ex_world Background ''hello'' [[(''k'', VInt 1)]] = ex_world
   \<and> Error ex_world Background ''hello'' [[(''k'', VInt 1)]] = ex_world"
proof -
  have h: "GetSDKRootLogger Background = None"
    by (simp add: GetSDKRootLogger_def Background_def)
  show ?thesis
    using h emit_without_logger_noop [OF h, of ex_world "''hello''" "[[(''k'', VInt 1)]]"]
    by simp
qed

subsection \<open>SetField without a root logger\<close>

text \<open>
  C9. On a context without an SDK root logger, SetField returns the context it was
  given: no binding is made, and a lookup in the result still finds no logger.
\<close>

theorem SetField_without_logger:
  assumes "GetSDKRootLogger ctx = None"
  shows "SetField ctx key v = ctx \<and> GetSDKRootLogger (SetField ctx key v) = None"
  using assms by (simp add: SetField_def)

theorem SetField_without_logger_witness:
  "GetSDKRootLogger Background = None
   \<and> SetField Background ''user'' (VString ''a'') = Background
   \<and> GetSDKRootLogger (SetField Background ''user'' (VString ''a'')) = None"
proof -
  have h: "GetSDKRootLogger Background = None"
    by (simp add: GetSDKRootLogger_def Background_def)
  show ?thesis
    using h SetField_without_logger [OF h, of "''user''" "VString ''a''"] by simp
qed

lemma ApplyMask_implied: "fst (snd (ApplyMask lOpts msg ia aa)) = ia"
  by (simp add: ApplyMask_def Let_def)

lemma ApplyMask_keys: "map fst (snd (snd (ApplyMask lOpts msg ia aa))) = map fst aa"
  by (simp add: ApplyMask_def Let_def mask_field_def comp_def)

subsection \<open>Masking leaves the bound fields alone\<close>

text \<open>
  C7. On an emit call that is not omitted, ApplyMask hands back the logger's bound
  fields as it received them and keeps the keys of the call's fields; the sink receives
  one call, made on the logger of the context with its bound fields as they were, with
  the message and the call's fields as masking left them.
\<close>

theorem masking_leaves_bound_fields:
  assumes "GetSDKRootLogger ctx = Some logger"
      and "\<not> ShouldOmit (GetSDKRootTFLoggerOpts w ctx) msg (ImpliedArgs logger) (MapsToArgs fs)"
  shows "\<exists>msg' aa.
           ApplyMask (GetSDKRootTFLoggerOpts w ctx) msg (ImpliedArgs logger) (MapsToArgs fs)
             = (msg', ImpliedArgs logger, aa)
         \<and> map fst aa = map fst (MapsToArgs fs)
         \<and> emit op w ctx msg fs = logger_call (level_of op) logger msg' aa w
         \<and> sink_calls (emit op w ctx msg fs)
             = sink_calls w @ [\<lparr>e_level = level_of op, e_logger = logger, e_msg = msg', e_args = aa\<rparr>]"
proof -
  obtain msg' ia aa where am:
    "ApplyMask (GetSDKRootTFLoggerOpts w ctx) msg (ImpliedArgs logger) (MapsToArgs fs)
       = (msg', ia, aa)"
    by (cases "ApplyMask (GetSDKRootTFLoggerOpts w ctx) msg (ImpliedArgs logger) (MapsToArgs fs)")
  have ia: "ia = ImpliedArgs logger"
    using ApplyMask_implied [of "GetSDKRootTFLoggerOpts w ctx" msg "ImpliedArgs logger"
        "MapsToArgs fs"] am
    by simp
  have keys: "map fst aa = map fst (MapsToArgs fs)"
    using ApplyMask_keys [of "GetSDKRootTFLoggerOpts w ctx" msg "ImpliedArgs logger"
        "MapsToArgs fs"] am
    by simp
  have "emit op w ctx msg fs = logger_call (level_of op) (logger\<lparr>implied := ia\<rparr>) msg' aa w"
    using assms am by (rule emit_kept)
  then have e: "emit op w ctx msg fs = logger_call (level_of op) logger msg' aa w"
    by (simp add: ia ImpliedArgs_def)
  show ?thesis
    using am ia keys e by (simp add: logger_call_def)
qed

theorem masking_leaves_bound_fields_witness:
  "GetSDKRootLogger (fst ex_token) = Some ex_token_logger
   \<and> \<not> ShouldOmit (GetSDKRootTFLoggerOpts (snd ex_token) (fst ex_token))
       ''req'' (ImpliedArgs ex_token_logger)
       (MapsToArgs [[(''token'', VString ''xyz''), (''id'', VString ''1'')]])
   \<and> sink_calls (emit OpDebug (snd ex_token) (fst ex_token)
         ''req'' [[(''token'', VString ''xyz''), (''id'', VString ''1'')]])
      = [\<lparr>e_level = LvDebug, e_logger = ex_token_logger, e_msg = ''req'',
          e_args = [(''token'', VString ''***''), (''id'', VString ''1'')]\<rparr>]"
proof -
  let ?fs = "[[(''token'', VString ''xyz''), (''id'', VString ''1'')]]"
  have s: "GetSDKRootTFLoggerOpts (snd ex_token) (fst ex_token)
             = empty_TFLoggerOpts\<lparr>maskFieldValueByFieldKeys := [''token'']\<rparr>"
    by (simp add: ex_token_def extension_as_extend extend_result store_defs slot_defs
        example_defs)
  have c: "sink_calls (snd ex_token) = []"
    by (simp add: ex_token_def extension_as_extend extend_result example_defs)
  have h1: "GetSDKRootLogger (fst ex_token) = Some ex_token_logger"
    by (simp add: ex_token_def extension_as_extend extend_result slot_defs example_defs)
  have h2: "\<not> ShouldOmit (GetSDKRootTFLoggerOpts (snd ex_token) (fst ex_token)) ''req''
              (ImpliedArgs ex_token_logger) (MapsToArgs ?fs)"
    unfolding s by (simp add: ShouldOmit_def list_ex_iff empty_TFLoggerOpts_def)
  have am: "ApplyMask (GetSDKRootTFLoggerOpts (snd ex_token) (fst ex_token)) ''req''
              (ImpliedArgs ex_token_logger) (MapsToArgs ?fs)
            = (''req'', ImpliedArgs ex_token_logger,
               [(''token'', VString ''***''), (''id'', VString ''1'')])"
    unfolding s
    by (simp add: ApplyMask_def MapsToArgs_def mask_field_def logMaskingReplacementString_def
        empty_TFLoggerOpts_def)
  show ?thesis
    using h1 h2 am c masking_leaves_bound_fields [OF h1 h2, of OpDebug]
    by (simp add: logger_call_def)
qed

lemma store_ok_after_extend:
  "store_ok w c \<Longrightarrow> store_ok (snd (extend_policy e w ctx)) c"
  "store_ok (snd (extend_policy e w ctx)) (fst (extend_policy e w ctx))"
  by (simp_all add: extend_result store_ok_def split: option.splits)

lemma old_store_after_extend:
  "store_ok w c \<Longrightarrow>
   GetSDKRootTFLoggerOpts (snd (extend_policy e w ctx)) c = GetSDKRootTFLoggerOpts w c"
  by (simp add: extend_result store_of_old)

lemma heaps_after_extend:
  "take (length (store_heap w)) (store_heap (snd (extend_policy e w ctx))) = store_heap w"
  "opts_heap (snd (extend_policy e w ctx)) = opts_heap w"
  "sink_calls (snd (extend_policy e w ctx)) = sink_calls w"
  by (simp_all add: extend_result)

subsection \<open>Policy extension\<close>

text \<open>
  C5. A policy-extension operation (any of the six) on a well-formed context reads the
  store of the context, the empty store when the slot is empty, and returns a context
  that differs from the input in the policy slot only and whose store is the store read
  with the given rules appended to the matching rule set. The store of the input context
  reads as before, and no store that was there is written. When a second extension is
  then made from the same input context, the context returned first still reads as its
  own extension, the context returned second reads as the input's store with the second
  rules only, and the input context still reads as before: neither sees the other's
  rules. The contexts returned are well-formed again.
\<close>

theorem policy_extension_additive:
  assumes "store_ok w ctx"
      and "extend_policy e w ctx = (ctx1, w1)"
      and "extend_policy e' w1 ctx = (ctx2, w2)"
  shows "GetSDKRootTFLoggerOpts w (ctx\<lparr>slot_SDKRootTFLoggerOpts := None\<rparr>) = empty_TFLoggerOpts
       \<and> GetSDKRootTFLoggerOpts w1 ctx1 = spec_extended e (GetSDKRootTFLoggerOpts w ctx)
       \<and> ctx1 = ctx\<lparr>slot_SDKRootTFLoggerOpts := slot_SDKRootTFLoggerOpts ctx1\<rparr>
       \<and> GetSDKRootTFLoggerOpts w1 ctx = GetSDKRootTFLoggerOpts w ctx
       \<and> take (length (store_heap w)) (store_heap w1) = store_heap w
       \<and> GetSDKRootTFLoggerOpts w2 ctx1 = spec_extended e (GetSDKRootTFLoggerOpts w ctx)
       \<and> GetSDKRootTFLoggerOpts w2 ctx2 = spec_extended e' (GetSDKRootTFLoggerOpts w ctx)
       \<and> GetSDKRootTFLoggerOpts w2 ctx = GetSDKRootTFLoggerOpts w ctx
       \<and> store_ok w1 ctx1 \<and> store_ok w2 ctx1 \<and> store_ok w2 ctx2"
proof -
  have c1: "ctx1 = fst (extend_policy e w ctx)" and w1: "w1 = snd (extend_policy e w ctx)"
    using assms(2) by simp_all
  have c2: "ctx2 = fst (extend_policy e' w1 ctx)" and w2: "w2 = snd (extend_policy e' w1 ctx)"
    using assms(3) by simp_all
  have ok1: "store_ok w1 ctx" "store_ok w1 ctx1"
    using assms(1) by (simp_all add: c1 w1 store_ok_after_extend)
  have a: "GetSDKRootTFLoggerOpts w1 ctx1 = spec_extended e (GetSDKRootTFLoggerOpts w ctx)"
    by (simp add: c1 w1 store_after_extend)
  have b: "GetSDKRootTFLoggerOpts w1 ctx = GetSDKRootTFLoggerOpts w ctx"
    using assms(1) by (simp add: w1 old_store_after_extend)
  have "GetSDKRootTFLoggerOpts w2 ctx1 = GetSDKRootTFLoggerOpts w1 ctx1"
    using ok1(2) by (simp add: w2 old_store_after_extend)
  with a have c: "GetSDKRootTFLoggerOpts w2 ctx1 = spec_extended e (GetSDKRootTFLoggerOpts w ctx)"
    by simp
  have "GetSDKRootTFLoggerOpts w2 ctx2 = spec_extended e' (GetSDKRootTFLoggerOpts w1 ctx)"
    by (simp add: c2 w2 store_after_extend)
  with b have d: "GetSDKRootTFLoggerOpts w2 ctx2 = spec_extended e' (GetSDKRootTFLoggerOpts w ctx)"
    by simp
  have "GetSDKRootTFLoggerOpts w2 ctx = GetSDKRootTFLoggerOpts w1 ctx"
    using ok1(1) by (simp add: w2 old_store_after_extend)
  with b have f: "GetSDKRootTFLoggerOpts w2 ctx = GetSDKRootTFLoggerOpts w ctx"
    by simp
  have g: "ctx1 = ctx\<lparr>slot_SDKRootTFLoggerOpts := slot_SDKRootTFLoggerOpts ctx1\<rparr>"
    by (simp add: c1 extend_result)
  have h: "take (length (store_heap w)) (store_heap w1) = store_heap w"
    by (simp add: w1 heaps_after_extend)
  have i: "GetSDKRootTFLoggerOpts w (ctx\<lparr>slot_SDKRootTFLoggerOpts := None\<rparr>) = empty_TFLoggerOpts"
    by (simp add: GetSDKRootTFLoggerOpts_def)
  have ok2: "store_ok w2 ctx1" "store_ok w2 ctx2"
    using ok1(2) by (simp_all add: c2 w2 store_ok_after_extend)
  from a b c d f g h i ok1(2) ok2 show ?thesis by blast
qed

theorem policy_extension_additive_witness:
  "store_ok (snd ex_base) (fst ex_base)
   \<and> extend_policy (OmitFieldKeys [''foo'']) (snd ex_base) (fst ex_base)
       = (fst ex_base\<lparr>slot_SDKRootTFLoggerOpts := Some 1\<rparr>,
          snd ex_base\<lparr>store_heap :=
            [empty_TFLoggerOpts\<lparr>omitByMessageStrings := [''secret'']\<rparr>,
             empty_TFLoggerOpts\<lparr>omitByFieldKeys := [''foo''],
               omitByMessageStrings := [''secret'']\<rparr>]\<rparr>)
   \<and> extend_policy (MaskFieldKeys [''bar''])
        (snd ex_base\<lparr>store_heap :=
            [empty_TFLoggerOpts\<lparr>omitByMessageStrings := [''secret'']\<rparr>,
             empty_TFLoggerOpts\<lparr>omitByFieldKeys := [''foo''],
               omitByMessageStrings := [''secret'']\<rparr>]\<rparr>)
        (fst ex_base)
       = (fst ex_base\<lparr>slot_SDKRootTFLoggerOpts := Some 2\<rparr>,
          snd ex_base\<lparr>store_heap :=
            [empty_TFLoggerOpts\<lparr>omitByMessageStrings := [''secret'']\<rparr>,
             empty_TFLoggerOpts\<lparr>omitByFieldKeys := [''foo''],
               omitByMessageStrings := [''secret'']\<rparr>,
             empty_TFLoggerOpts\<lparr>omitByMessageStrings := [''secret''],
               maskFieldValueByFieldKeys := [''bar'']\<rparr>]\<rparr>)
   \<and> GetSDKRootTFLoggerOpts
        (snd ex_base\<lparr>store_heap :=
            [empty_TFLoggerOpts\<lparr>omitByMessageStrings := [''secret'']\<rparr>,
             empty_TFLoggerOpts\<lparr>omitByFieldKeys := [''foo''],
               omitByMessageStrings := [''secret'']\<rparr>,
             empty_TFLoggerOpts\<lparr>omitByMessageStrings := [''secret''],
               maskFieldValueByFieldKeys := [''bar'']\<rparr>]\<rparr>)
        (fst ex_base\<lparr>slot_SDKRootTFLoggerOpts := Some 1\<rparr>)
       = empty_TFLoggerOpts\<lparr>omitByFieldKeys := [''foo''], omitByMessageStrings := [''secret'']\<rparr>
   \<and> GetSDKRootTFLoggerOpts
        (snd ex_base\<lparr>store_heap :=
            [empty_TFLoggerOpts\<lparr>omitByMessageStrings := [''secret'']\<rparr>,
             empty_TFLoggerOpts\<lparr>omitByFieldKeys := [''foo''],
               omitByMessageStrings := [''secret'']\<rparr>,
             empty_TFLoggerOpts\<lparr>omitByMessageStrings := [''secret''],
               maskFieldValueByFieldKeys := [''bar'']\<rparr>]\<rparr>)
        (fst ex_base)
       = empty_TFLoggerOpts\<lparr>omitByMessageStrings := [''secret'']\<rparr>"
proof -
  have b: "ex_base = (ex_ctx\<lparr>slot_SDKRootTFLoggerOpts := Some 0\<rparr>,
      ex_world\<lparr>store_heap := [empty_TFLoggerOpts\<lparr>omitByMessageStrings := [''secret'']\<rparr>]\<rparr>)"
    by (simp add: ex_base_def extension_as_extend extend_result store_defs slot_defs
        example_defs)
  have h1: "store_ok (snd ex_base) (fst ex_base)"
    by (simp add: b store_ok_def)
  have h2: "extend_policy (OmitFieldKeys [''foo'']) (snd ex_base) (fst ex_base)
       = (fst ex_base\<lparr>slot_SDKRootTFLoggerOpts := Some 1\<rparr>,
          snd ex_base\<lparr>store_heap :=
            [empty_TFLoggerOpts\<lparr>omitByMessageStrings := [''secret'']\<rparr>,
             empty_TFLoggerOpts\<lparr>omitByFieldKeys := [''foo''],
               omitByMessageStrings := [''secret'']\<rparr>]\<rparr>)"
    by (simp add: b extend_result store_defs empty_TFLoggerOpts_def)
  have h3: "extend_policy (MaskFieldKeys [''bar''])
        (snd ex_base\<lparr>store_heap :=
            [empty_TFLoggerOpts\<lparr>omitByMessageStrings := [''secret'']\<rparr>,
             empty_TFLoggerOpts\<lparr>omitByFieldKeys := [''foo''],
               omitByMessageStrings := [''secret'']\<rparr>]\<rparr>)
        (fst ex_base)
       = (fst ex_base\<lparr>slot_SDKRootTFLoggerOpts := Some 2\<rparr>,
          snd ex_base\<lparr>store_heap :=
            [empty_TFLoggerOpts\<lparr>omitByMessageStrings := [''secret'']\<rparr>,
             empty_TFLoggerOpts\<lparr>omitByFieldKeys := [''foo''],
               omitByMessageStrings := [''secret'']\<rparr>,
             empty_TFLoggerOpts\<lparr>omitByMessageStrings := [''secret''],
               maskFieldValueByFieldKeys := [''bar'']\<rparr>]\<rparr>)"
    by (simp add: b extend_result store_defs empty_TFLoggerOpts_def)
  have s: "GetSDKRootTFLoggerOpts (snd ex_base) (fst ex_base)
             = empty_TFLoggerOpts\<lparr>omitByMessageStrings := [''secret'']\<rparr>"
    by (simp add: b store_defs)
  show ?thesis
    using h1 h2 h3 policy_extension_additive [OF h1 h2 h3]
    by (simp add: s empty_TFLoggerOpts_def)
qed

lemma SetField_provider:
  "provider_slots (SetField ctx key v) = provider_slots ctx"
  "SetField (with_provider_slots ctx pl po pt) key v
     = with_provider_slots (SetField ctx key v) pl po pt"
  by (simp_all add: SetField_def provider_slots_def with_provider_slots_def slot_defs
      split: option.splits)

lemma store_provider:
  "GetSDKRootTFLoggerOpts w (with_provider_slots ctx pl po pt) = GetSDKRootTFLoggerOpts w ctx"
  "GetSDKRootLogger (with_provider_slots ctx pl po pt) = GetSDKRootLogger ctx"
  by (simp_all add: with_provider_slots_def slot_defs GetSDKRootTFLoggerOpts_def)

lemma extend_provider:
  "provider_slots (fst (extend_policy e w ctx)) = provider_slots ctx"
  "extend_policy e w (with_provider_slots ctx pl po pt)
     = (with_provider_slots (fst (extend_policy e w ctx)) pl po pt, snd (extend_policy e w ctx))"
  by (simp_all add: extend_result provider_slots_def store_provider)
     (simp add: with_provider_slots_def)

lemma omitOrMask_provider:
  "omitOrMask w (with_provider_slots ctx pl po pt) l msg fs = omitOrMask w ctx l msg fs"
  by (simp add: omitOrMask_def store_provider)

lemma emit_provider:
  "emit op w (with_provider_slots ctx pl po pt) msg fs = emit op w ctx msg fs"
  by (cases op)
     (simp_all add: Trace_def Debug_def Info_def Warn_def Error_def store_provider
       omitOrMask_provider split: option.splits)

lemma emit_heap:
  "opts_heap (emit op w ctx msg fs) = opts_heap w"
  "store_heap (emit op w ctx msg fs) = store_heap w"
  by (cases op;
      simp add: Trace_def Debug_def Info_def Warn_def Error_def logger_call_def
       split: option.splits prod.splits)+

lemma NewRootSDKLogger_provider:
  "provider_slots (fst (NewRootSDKLogger w ctx opts)) = provider_slots ctx"
  by (simp add: NewRootSDKLogger_def Let_def provider_slots_def slot_defs
      split: option.splits prod.splits)

lemma NewRootSDKLogger_heap:
  "take (length (opts_heap w)) (opts_heap (snd (NewRootSDKLogger w ctx opts))) = opts_heap w"
  "store_heap (snd (NewRootSDKLogger w ctx opts)) = store_heap w"
  by (auto simp: NewRootSDKLogger_def Let_def LoggerOptionsCopy_def new_opts_def update_opts_def
      split: option.splits prod.splits)

lemma NewRootSDKLogger_reads_sdk_only:
  "NewRootSDKLogger w (with_provider_slots ctx pl po pt) opts
     = (with_provider_slots (fst (NewRootSDKLogger w ctx opts)) pl po pt,
        snd (NewRootSDKLogger w ctx opts))"
  by (simp add: NewRootSDKLogger_def Let_def with_provider_slots_def slot_defs
      split: option.splits prod.splits)

subsection \<open>The provider slots\<close>

text \<open>
  C10. SetField and the six policy-extension operations return a context with the
  provider's logger, options and policy slots as in the input; the emit operations write
  neither an option struct nor a policy store, and an extension writes no option struct
  and no policy store that was there; and none of them reads a provider slot: with other
  provider slots in the input the result is the same, up to those slots. The same holds
  of NewRootSDKLogger, which adds one option struct and leaves the older ones as they
  were.
\<close>

theorem sdk_operations_leave_provider_slots:
  "provider_slots (SetField ctx key v) = provider_slots ctx
   \<and> provider_slots (fst (OmitLogWithFieldKeys w ctx keys)) = provider_slots ctx
   \<and> provider_slots (fst (OmitLogWithMessageRegexes w ctx res)) = provider_slots ctx
   \<and> provider_slots (fst (OmitLogWithMessageStrings w ctx lits)) = provider_slots ctx
   \<and> provider_slots (fst (MaskFieldValuesWithFieldKeys w ctx keys)) = provider_slots ctx
   \<and> provider_slots (fst (MaskMessageRegexes w ctx res)) = provider_slots ctx
   \<and> provider_slots (fst (MaskMessageStrings w ctx lits)) = provider_slots ctx
   \<and> opts_heap (emit op w ctx msg fs) = opts_heap w
   \<and> store_heap (emit op w ctx msg fs) = store_heap w
   \<and> opts_heap (snd (extend_policy e w ctx)) = opts_heap w
   \<and> take (length (store_heap w)) (store_heap (snd (extend_policy e w ctx))) = store_heap w
   \<and> SetField (with_provider_slots ctx pl po pt) key v
       = with_provider_slots (SetField ctx key v) pl po pt
   \<and> OmitLogWithFieldKeys w (with_provider_slots ctx pl po pt) keys
       = (with_provider_slots (fst (OmitLogWithFieldKeys w ctx keys)) pl po pt,
          snd (OmitLogWithFieldKeys w ctx keys))
   \<and> OmitLogWithMessageRegexes w (with_provider_slots ctx pl po pt) res
       = (with_provider_slots (fst (OmitLogWithMessageRegexes w ctx res)) pl po pt,
          snd (OmitLogWithMessageRegexes w ctx res))
   \<and> OmitLogWithMessageStrings w (with_provider_slots ctx pl po pt) lits
       = (with_provider_slots (fst (OmitLogWithMessageStrings w ctx lits)) pl po pt,
          snd (OmitLogWithMessageStrings w ctx lits))
   \<and> MaskFieldValuesWithFieldKeys w (with_provider_slots ctx pl po pt) keys
       = (with_provider_slots (fst (MaskFieldValuesWithFieldKeys w ctx keys)) pl po pt,
          snd (MaskFieldValuesWithFieldKeys w ctx keys))
   \<and> MaskMessageRegexes w (with_provider_slots ctx pl po pt) res
       = (with_provider_slots (fst (MaskMessageRegexes w ctx res)) pl po pt,
          snd (MaskMessageRegexes w ctx res))
   \<and> MaskMessageStrings w (with_provider_slots ctx pl po pt) lits
       = (with_provider_slots (fst (MaskMessageStrings w ctx lits)) pl po pt,
          snd (MaskMessageStrings w ctx lits))
   \<and> emit op w (with_provider_slots ctx pl po pt) msg fs = emit op w ctx msg fs
   \<and> provider_slots (fst (NewRootSDKLogger w ctx opts)) = provider_slots ctx
   \<and> take (length (opts_heap w)) (opts_heap (snd (NewRootSDKLogger w ctx opts))) = opts_heap w
   \<and> NewRootSDKLogger w (with_provider_slots ctx pl po pt) opts
       = (with_provider_slots (fst (NewRootSDKLogger w ctx opts)) pl po pt,
          snd (NewRootSDKLogger w ctx opts))"
  by (simp only: extension_as_extend SetField_provider extend_provider emit_provider
      emit_heap heaps_after_extend NewRootSDKLogger_provider NewRootSDKLogger_heap
      NewRootSDKLogger_reads_sdk_only simp_thms)

lemma opts_at_new_opts:
  "opts_at (snd (new_opts w lo)) (fst (new_opts w lo)) = Some lo"
  "fst (new_opts w lo) = length (opts_heap w)"
  "a < length (opts_heap w) \<Longrightarrow> opts_at (snd (new_opts w lo)) a = opts_at w a"
  by (simp_all add: new_opts_def opts_at_def nth_append)

lemma NewRootSDKLogger_standalone:
  assumes "GetSink ctx = None"
  shows "NewRootSDKLogger w ctx opts =
           (ctx\<lparr>slot_SDKRootLogger := Some (hclog_New (spec_standalone_options ''sdk'' opts)),
                slot_SDKRootLoggerOptions := Some (length (opts_heap w))\<rparr>,
            w\<lparr>opts_heap := opts_heap w @ [spec_standalone_options ''sdk'' opts]\<rparr>)"
  using assms
  by (simp add: NewRootSDKLogger_def Let_def new_opts_def spec_standalone_options_def
      DefaultSDKRootLoggerName_def SetSDKRootLogger_def SetSDKRootLoggerOptions_def)

lemma NewRootProviderLogger_standalone:
  assumes "GetSink ctx = None"
  shows "NewRootProviderLogger w ctx opts =
           (ctx\<lparr>slot_ProviderRootLogger := Some (hclog_New (spec_standalone_options ''provider'' opts)),
                slot_ProviderRootLoggerOptions := Some (length (opts_heap w))\<rparr>,
            w\<lparr>opts_heap := opts_heap w @ [spec_standalone_options ''provider'' opts]\<rparr>)"
  using assms
  by (simp add: NewRootProviderLogger_def Let_def new_opts_def spec_standalone_options_def
      DefaultProviderRootLoggerName_def SetProviderRootLogger_def SetProviderRootLoggerOptions_def)

subsection \<open>A root logger without a host sink\<close>

text \<open>
  C4. On a context without a host sink, NewRootSDKLogger and NewRootProviderLogger store
  a pointer to an option struct that holds: the given name, or the role name when none
  was given; the given level, or Trace when none was given; JSON output and independent
  levels switched on; and the caller's location flag, time flag (as its negation,
  DisableTime), offset and output as given. The stored logger is made from that
  struct.
\<close>

theorem standalone_root_logger_options:
  assumes "GetSink ctx = None"
  shows "(\<exists>a. slot_SDKRootLoggerOptions (fst (NewRootSDKLogger w ctx opts)) = Some a
            \<and> opts_at (snd (NewRootSDKLogger w ctx opts)) a
                = Some (spec_standalone_options ''sdk'' opts))
       \<and> (\<exists>a. slot_ProviderRootLoggerOptions (fst (NewRootProviderLogger w ctx opts)) = Some a
            \<and> opts_at (snd (NewRootProviderLogger w ctx opts)) a
                = Some (spec_standalone_options ''provider'' opts))
       \<and> slot_SDKRootLogger (fst (NewRootSDKLogger w ctx opts))
            = Some (hclog_New (spec_standalone_options ''sdk'' opts))
       \<and> slot_ProviderRootLogger (fst (NewRootProviderLogger w ctx opts))
            = Some (hclog_New (spec_standalone_options ''provider'' opts))"
  using assms
  by (simp add: NewRootSDKLogger_standalone NewRootProviderLogger_standalone opts_at_def)

theorem standalone_root_logger_options_witness:
  "GetSink Background = None
   \<and> slot_SDKRootLoggerOptions (fst (NewRootSDKLogger ex_world Background ex_opts)) = Some 0
   \<and> opts_at (snd (NewRootSDKLogger ex_world Background ex_opts)) 0
       = Some \<lparr>Name = ''sdk'', Level = LvTrace, Output = Some 2, JSONFormat = True,
               IncludeLocation = True, AdditionalLocationOffset = 1, TimeFormat = [],
               DisableTime = False, IndependentLevels = True\<rparr>
   \<and> slot_SDKRootLogger (fst (NewRootSDKLogger ex_world Background ex_opts))
       = Some \<lparr>lname = ''sdk'', llevel = LvTrace, implied = []\<rparr>
   \<and> sink_calls (Trace (snd (NewRootSDKLogger ex_world Background ex_opts))
         (fst (NewRootSDKLogger ex_world Background ex_opts)) ''hello'' [])
       = [\<lparr>e_level = LvTrace, e_logger = \<lparr>lname = ''sdk'', llevel = LvTrace, implied = []\<rparr>,
           e_msg = ''hello'', e_args = []\<rparr>]"
proof -
  have h: "GetSink Background = None"
    by (simp add: GetSink_def Background_def)
  have so: "spec_standalone_options ''sdk'' ex_opts =
       \<lparr>Name = ''sdk'', Level = LvTrace, Output = Some 2, JSONFormat = True,
        IncludeLocation = True, AdditionalLocationOffset = 1, TimeFormat = [],
        DisableTime = False, IndependentLevels = True\<rparr>"
    by (simp add: spec_standalone_options_def ex_opts_def)
  have r: "NewRootSDKLogger ex_world Background ex_opts =
       (Background\<lparr>slot_SDKRootLogger := Some \<lparr>lname = ''sdk'', llevel = LvTrace, implied = []\<rparr>,
                   slot_SDKRootLoggerOptions := Some 0\<rparr>,
        ex_world\<lparr>opts_heap := [spec_standalone_options ''sdk'' ex_opts]\<rparr>)"
    by (simp add: NewRootSDKLogger_standalone [OF h] so hclog_New_def ex_world_def)
  have t: "sink_calls (Trace (snd (NewRootSDKLogger ex_world Background ex_opts))
         (fst (NewRootSDKLogger ex_world Background ex_opts)) ''hello'' [])
       = [\<lparr>e_level = LvTrace, e_logger = \<lparr>lname = ''sdk'', llevel = LvTrace, implied = []\<rparr>,
           e_msg = ''hello'', e_args = []\<rparr>]"
    unfolding r
    by (simp add: Trace_def omitOrMask_def slot_defs store_defs example_defs ShouldOmit_def
        ApplyMask_def MapsToArgs_def ImpliedArgs_def logger_call_def)
  show ?thesis
    using h t standalone_root_logger_options [OF h, of ex_world ex_opts]
    unfolding r by (simp add: so hclog_New_def)
qed

lemma LoggerOptionsCopy_recorded:
  assumes "opts_at w a = Some so"
  shows "LoggerOptionsCopy w (Some a) =
           (length (opts_heap w), w\<lparr>opts_heap := opts_heap w @ [so]\<rparr>)"
  using assms by (simp add: LoggerOptionsCopy_def new_opts_def)

lemma update_opts_last:
  "update_opts (length h) f (w\<lparr>opts_heap := h @ [x]\<rparr>) = w\<lparr>opts_heap := h @ [f x]\<rparr>"
  by (simp add: update_opts_def)

lemma NewRootSDKLogger_derived:
  assumes "GetSink ctx = Some sink" and "GetSinkOptions ctx = Some a" and "opts_at w a = Some so"
  shows "NewRootSDKLogger w ctx opts =
           (ctx\<lparr>slot_SDKRootLogger :=
                  Some (let l = Named sink (if opt_Name opts = [] then ''sdk'' else opt_Name opts)
                        in if opt_Level opts \<noteq> NoLevel then SetLevel l (opt_Level opts) else l),
                slot_SDKRootLoggerOptions := Some (length (opts_heap w))\<rparr>,
            w\<lparr>opts_heap := opts_heap w @ [spec_derived_options ''sdk'' opts so]\<rparr>)"
  using assms
  by (simp add: NewRootSDKLogger_def Let_def LoggerOptionsCopy_recorded update_opts_last
      spec_derived_options_def DefaultSDKRootLoggerName_def SetSDKRootLogger_def
      SetSDKRootLoggerOptions_def)

lemma NewRootProviderLogger_derived:
  assumes "GetSink ctx = Some sink" and "GetSinkOptions ctx = Some a" and "opts_at w a = Some so"
  shows "NewRootProviderLogger w ctx opts =
           (ctx\<lparr>slot_ProviderRootLogger :=
                  Some (let l = Named sink (if opt_Name opts = [] then ''provider'' else opt_Name opts)
                        in if opt_Level opts \<noteq> NoLevel then SetLevel l (opt_Level opts) else l),
                slot_ProviderRootLoggerOptions := Some (length (opts_heap w))\<rparr>,
            w\<lparr>opts_heap := opts_heap w @ [spec_derived_options ''provider'' opts so]\<rparr>)"
  using assms
  by (simp add: NewRootProviderLogger_def Let_def LoggerOptionsCopy_recorded update_opts_last
      spec_derived_options_def DefaultProviderRootLoggerName_def SetProviderRootLogger_def
      SetProviderRootLoggerOptions_def)

lemma derived_heap_facts:
  assumes "opts_at w a = Some so"
  shows "length (opts_heap w) \<noteq> a"
    and "opts_at (w\<lparr>opts_heap := opts_heap w @ [x]\<rparr>) (length (opts_heap w)) = Some x"
    and "opts_at (w\<lparr>opts_heap := opts_heap w @ [x]\<rparr>) a = Some so"
    and "opts_at (update_opts (length (opts_heap w)) f (w\<lparr>opts_heap := opts_heap w @ [x]\<rparr>)) a
           = Some so"
    and "take (length (opts_heap w)) (opts_heap w @ [x]) = opts_heap w"
  using assms
  by (auto simp: opts_at_def update_opts_def nth_append split: if_splits)

subsection \<open>A root logger derived from the host sink\<close>

text \<open>
  C6. On a context with a host sink whose options are recorded, NewRootSDKLogger and
  NewRootProviderLogger store a pointer to a new option struct, at an address other than
  that of the sink's options. The new struct is the sink's with the name replaced and,
  when the caller gave a level, the level replaced; every other field is the sink's.
  The sink's struct is as it was, every struct that was there before is as it was, and
  no later write through the new pointer changes the sink's struct.
\<close>

theorem derived_root_logger_options:
  assumes "GetSink ctx = Some sink" and "GetSinkOptions ctx = Some a" and "opts_at w a = Some so"
  shows "(\<exists>a'. slot_SDKRootLoggerOptions (fst (NewRootSDKLogger w ctx opts)) = Some a'
            \<and> a' \<noteq> a
            \<and> opts_at (snd (NewRootSDKLogger w ctx opts)) a'
                = Some (spec_derived_options ''sdk'' opts so)
            \<and> opts_at (snd (NewRootSDKLogger w ctx opts)) a = Some so
            \<and> (\<forall>f. opts_at (update_opts a' f (snd (NewRootSDKLogger w ctx opts))) a = Some so))
       \<and> (\<exists>a'. slot_ProviderRootLoggerOptions (fst (NewRootProviderLogger w ctx opts)) = Some a'
            \<and> a' \<noteq> a
            \<and> opts_at (snd (NewRootProviderLogger w ctx opts)) a'
                = Some (spec_derived_options ''provider'' opts so)
            \<and> opts_at (snd (NewRootProviderLogger w ctx opts)) a = Some so
            \<and> (\<forall>f. opts_at (update_opts a' f (snd (NewRootProviderLogger w ctx opts))) a
                   = Some so))
       \<and> take (length (opts_heap w)) (opts_heap (snd (NewRootSDKLogger w ctx opts))) = opts_heap w
       \<and> take (length (opts_heap w)) (opts_heap (snd (NewRootProviderLogger w ctx opts)))
           = opts_heap w"
  by (simp add: NewRootSDKLogger_derived [OF assms] NewRootProviderLogger_derived [OF assms]
      derived_heap_facts [OF assms(3)])

theorem derived_root_logger_options_witness:
  "GetSink ex_sink_ctx = Some \<lparr>lname = ''host'', llevel = LvInfo, implied = []\<rparr>
   \<and> GetSinkOptions ex_sink_ctx = Some 0
   \<and> opts_at ex_sink_world 0 = Some ex_sink_options
   \<and> slot_SDKRootLoggerOptions (fst (NewRootSDKLogger ex_sink_world ex_sink_ctx ex_opts)) = Some 1
   \<and> opts_at (snd (NewRootSDKLogger ex_sink_world ex_sink_ctx ex_opts)) 1
       = Some \<lparr>Name = ''sdk'', Level = LvInfo, Output = Some 2, JSONFormat = True,
               IncludeLocation = False, AdditionalLocationOffset = 0, TimeFormat = ''2006'',
               DisableTime = True, IndependentLevels = False\<rparr>
   \<and> opts_at (snd (NewRootSDKLogger ex_sink_world ex_sink_ctx ex_opts)) 0 = Some ex_sink_options
   \<and> opts_at (snd (NewRootProviderLogger ex_sink_world ex_sink_ctx (ex_opts\<lparr>opt_Level := LvDebug\<rparr>))) 1
       = Some \<lparr>Name = ''provider'', Level = LvDebug, Output = Some 2, JSONFormat = True,
               IncludeLocation = False, AdditionalLocationOffset = 0, TimeFormat = ''2006'',
               DisableTime = True, IndependentLevels = False\<rparr>"
proof -
  have h1: "GetSink ex_sink_ctx = Some \<lparr>lname = ''host'', llevel = LvInfo, implied = []\<rparr>"
    by (simp add: GetSink_def ex_sink_ctx_def Background_def)
  have h2: "GetSinkOptions ex_sink_ctx = Some 0"
    by (simp add: GetSinkOptions_def ex_sink_ctx_def Background_def)
  have h3: "opts_at ex_sink_world 0 = Some ex_sink_options"
    by (simp add: opts_at_def ex_sink_world_def)
  have s: "slot_SDKRootLoggerOptions (fst (NewRootSDKLogger ex_sink_world ex_sink_ctx ex_opts)) = Some 1"
    unfolding NewRootSDKLogger_derived [OF h1 h2 h3] by (simp add: ex_sink_world_def)
  have d1: "spec_derived_options ''sdk'' ex_opts ex_sink_options =
       \<lparr>Name = ''sdk'', Level = LvInfo, Output = Some 2, JSONFormat = True,
        IncludeLocation = False, AdditionalLocationOffset = 0, TimeFormat = ''2006'',
        DisableTime = True, IndependentLevels = False\<rparr>"
    by (simp add: spec_derived_options_def ex_opts_def ex_sink_options_def)
  have d2: "spec_derived_options ''provider'' (ex_opts\<lparr>opt_Level := LvDebug\<rparr>) ex_sink_options =
       \<lparr>Name = ''provider'', Level = LvDebug, Output = Some 2, JSONFormat = True,
        IncludeLocation = False, AdditionalLocationOffset = 0, TimeFormat = ''2006'',
        DisableTime = True, IndependentLevels = False\<rparr>"
    by (simp add: spec_derived_options_def ex_opts_def ex_sink_options_def)
  have p: "slot_ProviderRootLoggerOptions
             (fst (NewRootProviderLogger ex_sink_world ex_sink_ctx (ex_opts\<lparr>opt_Level := LvDebug\<rparr>)))
           = Some 1"
    unfolding NewRootProviderLogger_derived [OF h1 h2 h3] by (simp add: ex_sink_world_def)
  show ?thesis
    using h1 h2 h3 s p
      derived_root_logger_options [OF h1 h2 h3, of ex_opts]
      derived_root_logger_options [OF h1 h2 h3, of "ex_opts\<lparr>opt_Level := LvDebug\<rparr>"]
    by (auto simp: d1 d2)
qed
















subsection \<open>Masking the message\<close>





end
